theory Spec2Isabelle
  imports Main
begin

section \<open>JavaScript values as the node handles them\<close>

text \<open>
  The values that flow through \<open>freebox.js\<close>: JSON payloads of the appliance, the request
  option objects handed to axios, error objects, and the fields of the node. Numbers are
  the integral ones (track ids, ports); an object is its list of own properties in
  insertion order.
\<close>

datatype jsval =
    JUndef
  | JNull
  | JBool bool
  | JNum int
  | JStr string
  | JArr "jsval list"
  | JObj "(string \<times> jsval) list"

type_synonym obj = "(string \<times> jsval) list"

text \<open>Truthiness, as used by \<open>if (x)\<close>, \<open>!x\<close>, \<open>x ? a : b\<close> and \<open>x || y\<close>.\<close>

fun truthy :: "jsval \<Rightarrow> bool" where
  "truthy JUndef = False"
| "truthy JNull = False"
| "truthy (JBool b) = b"
| "truthy (JNum n) = (n \<noteq> 0)"
| "truthy (JStr s) = (s \<noteq> [])"
| "truthy (JArr xs) = True"
| "truthy (JObj ps) = True"

text \<open>\<open>undefined\<close> and \<open>null\<close>: reading a property of them, or destructuring them, throws.\<close>

fun nullish :: "jsval \<Rightarrow> bool" where
  "nullish JUndef = True"
| "nullish JNull = True"
| "nullish v = False"

definition objGet :: "obj \<Rightarrow> string \<Rightarrow> jsval" where
  "objGet ps k = (case map_of ps k of None \<Rightarrow> JUndef | Some v \<Rightarrow> v)"

fun objSet :: "obj \<Rightarrow> string \<Rightarrow> jsval \<Rightarrow> obj" where
  "objSet [] k v = [(k, v)]"
| "objSet ((k', v') # ps) k v = (if k' = k then (k, v) # ps else (k', v') # objSet ps k v)"

text \<open>
  \<open>v.k\<close> for a value that is not nullish. None of the property names the program reads
  (\<open>config\<close>, \<open>method\<close>, \<open>url\<close>, \<open>data\<close>, \<open>result\<close>, \<open>status\<close>, \<open>logged_in\<close>, ...) is a
  built-in property of a string, number, boolean or array, so those give \<open>undefined\<close>.
\<close>

fun field :: "jsval \<Rightarrow> string \<Rightarrow> jsval" where
  "field (JObj ps) k = objGet ps k"
| "field v k = JUndef"

text \<open>\<open>k in v\<close>: throws on a primitive, which is reported here as \<open>None\<close>.\<close>

fun hasKey :: "string \<Rightarrow> jsval \<Rightarrow> bool option" where
  "hasKey k (JObj ps) = Some (k \<in> fst ` set ps)"
| "hasKey k (JArr xs) = Some False"
| "hasKey k v = None"

text \<open>Decimal rendering of an integral number.\<close>

definition digit :: "nat \<Rightarrow> char" where
  "digit n = ''0123456789'' ! (n mod 10)"

fun showNat :: "nat \<Rightarrow> string" where
  "showNat n = (if n < 10 then [digit n] else showNat (n div 10) @ [digit n])"

declare showNat.simps [simp del]

definition showInt :: "int \<Rightarrow> string" where
  "showInt i = (if i < 0 then CHR ''-'' # showNat (nat (- i)) else showNat (nat i))"

fun joinComma :: "string list \<Rightarrow> string" where
  "joinComma [] = []"
| "joinComma [s] = s"
| "joinComma (s # t # ss) = s @ '','' @ joinComma (t # ss)"

text \<open>
  String conversion, as a template literal \<open>`${v}`\<close> and \<open>'...' + v\<close> perform it. An array
  joins its elements with commas, \<open>undefined\<close> and \<open>null\<close> elements giving the empty string.
  The rendering is the one of JavaScript for \<open>undefined\<close>, \<open>null\<close>, booleans, strings and
  integers below \<open>2^53\<close> in magnitude; a larger number is printed by JavaScript from its
  floating-point value (in exponent form from \<open>1e21\<close> on), and an object that has an own
  property \<open>toString\<close> makes the conversion throw, which \<open>tmpl\<close> does not show.
\<close>

fun tmpl :: "jsval \<Rightarrow> string" where
  "tmpl JUndef = ''undefined''"
| "tmpl JNull = ''null''"
| "tmpl (JBool b) = (if b then ''true'' else ''false'')"
| "tmpl (JNum n) = showInt n"
| "tmpl (JStr s) = s"
| "tmpl (JArr xs) = joinComma (map (\<lambda>x. if nullish x then [] else tmpl x) xs)"
| "tmpl (JObj ps) = ''[object Object]''"

text \<open>The identifiers whose string conversion \<open>tmpl\<close> gives exactly: strings and safe integers.\<close>

definition scalarId :: "jsval \<Rightarrow> bool" where
  "scalarId v = (case v of JStr s \<Rightarrow> True | JNum n \<Rightarrow> abs n < 9007199254740992 | _ \<Rightarrow> False)"

text \<open>A \<open>TypeError\<close> raised by the engine or by a library argument check.\<close>

definition typeError :: "string \<Rightarrow> jsval" where
  "typeError msg = JObj [(''name'', JStr ''TypeError''), (''message'', JStr msg)]"

text \<open>A settled promise.\<close>

datatype settled = Resolved jsval | Rejected jsval

fun isRejected :: "settled \<Rightarrow> bool" where
  "isRejected (Rejected e) = True"
| "isRejected (Resolved v) = False"

text \<open>
  Destructuring a parameter, \<open>({a, b}) => ...\<close>: it throws on \<open>undefined\<close> and \<open>null\<close>,
  which rejects the promise the callback belongs to.
\<close>

definition destructure :: "jsval \<Rightarrow> jsval option" where
  "destructure v = (if nullish v then None else Some v)"

section \<open>The node and its collaborators\<close>

datatype logentry =
    Info string
  | Error string
  | ErrorInspect string jsval  \<comment> \<open>the message up to \<open>util.inspect\<close>, and the inspected value\<close>

text \<open>
  The fields of a \<open>FreeboxServerNode\<close>, the credentials the runtime keeps for the node
  (\<open>RED.nodes.addCredentials\<close>, \<open>deleteCredentials\<close>), and what the node has done so far:
  the events emitted on \<open>_statusChanged\<close>, the lines logged, the option objects passed to
  axios, and the rejections that no handler took.
\<close>

record node =
  freebox :: obj
  application :: obj
  session :: obj
  credentials :: obj
  credStore :: "obj option"
  emitted :: "string list"
  logged :: "logentry list"
  sent :: "jsval list"
  unhandled :: "jsval list"

text \<open>
  The collaborators outside the repository. \<open>transport\<close> is axios: the outcome of the
  request with the given options, which may depend on how many requests were made
  before it. \<open>hmacSha1Hex key msg\<close> is
  \<open>crypto.createHmac('sha1', key).update(msg).digest('hex')\<close> on strings.
\<close>

record env =
  transport :: "nat \<Rightarrow> jsval \<Rightarrow> settled"
  hmacSha1Hex :: "string \<Rightarrow> string \<Rightarrow> string"

definition emit :: "string \<Rightarrow> node \<Rightarrow> node" where
  "emit ev st = st\<lparr>emitted := emitted st @ [ev]\<rparr>"

definition logInfo :: "string \<Rightarrow> node \<Rightarrow> node" where
  "logInfo msg st = st\<lparr>logged := logged st @ [Info msg]\<rparr>"

definition logError :: "string \<Rightarrow> node \<Rightarrow> node" where
  "logError msg st = st\<lparr>logged := logged st @ [Error msg]\<rparr>"

definition logErrorInspect :: "string \<Rightarrow> jsval \<Rightarrow> node \<Rightarrow> node" where
  "logErrorInspect msg v st = st\<lparr>logged := logged st @ [ErrorInspect msg v]\<rparr>"

definition axios :: "env \<Rightarrow> jsval \<Rightarrow> node \<Rightarrow> settled \<times> node" where
  "axios e options st = (transport e (length (sent st)) options, st\<lparr>sent := sent st @ [options]\<rparr>)"

definition APP_ID :: string where "APP_ID = ''node-red-contrib-freebox''"
definition APP_NAME :: string where "APP_NAME = ''node-red Freebox API''"
definition APP_VERSION :: string where "APP_VERSION = ''0.0.1''"
definition DEVICE_NAME :: string where "DEVICE_NAME = ''Node-red''"

section \<open>\<open>_internalApiCall\<close>\<close>

text \<open>The fulfilment callback \<open>({ data }) => data.result\<close>.\<close>

definition unwrapResult :: "settled \<Rightarrow> settled" where
  "unwrapResult r =
     (case r of
        Rejected e \<Rightarrow> Rejected e
      | Resolved response \<Rightarrow>
          (case destructure response of
             None \<Rightarrow> Rejected (typeError ''Cannot destructure property data'')
           | Some rsp \<Rightarrow>
               (if nullish (field rsp ''data'')
                then Rejected (typeError ''Cannot read properties of data (reading result)'')
                else Resolved (field (field rsp ''data'') ''result''))))"

text \<open>
  The rejection callback: it builds the log line from \<open>response.config.method\<close> and
  \<open>response.config.url\<close>, logs it and returns \<open>response\<close>, so the promise is fulfilled with
  the failure. Reading \<open>response.config.method\<close> throws when \<open>response\<close> or
  \<open>response.config\<close> is \<open>undefined\<close> or \<open>null\<close>.
\<close>

definition catchHandler :: "jsval \<Rightarrow> node \<Rightarrow> settled \<times> node" where
  "catchHandler response st =
     (if nullish response
      then (Rejected (typeError ''Cannot read properties (reading config)''), st)
      else if nullish (field response ''config'')
      then (Rejected (typeError ''Cannot read properties (reading method)''), st)
      else (Resolved response,
            logErrorInspect (tmpl (field (field response ''config'') ''method'') @ '' ''
                             @ tmpl (field (field response ''config'') ''url'') @ '' error: '')
                            response st))"

definition requestOptions :: "node \<Rightarrow> string \<Rightarrow> jsval \<Rightarrow> obj \<Rightarrow> jsval" where
  "requestOptions st url data headers =
     JObj [(''url'', JStr (tmpl (objGet (freebox st) ''baseUrl'') @ url)),
           (''data'', data),
           (''method'', JStr (if truthy data then ''POST'' else ''GET'')),
           (''headers'', JObj headers)]"

definition internalApiCall :: "env \<Rightarrow> string \<Rightarrow> jsval \<Rightarrow> obj \<Rightarrow> node \<Rightarrow> settled \<times> node" where
  "internalApiCall e url data headers st =
     (case axios e (requestOptions st url data headers) st of
        (r, st1) \<Rightarrow>
          (case unwrapResult r of
             Resolved v \<Rightarrow> (Resolved v, st1)
           | Rejected err \<Rightarrow> catchHandler err st1))"

section \<open>\<open>refreshSession\<close> and \<open>apiCall\<close>\<close>

text \<open>
  \<open>crypto.createHmac('sha1', key).update(msg).digest('hex')\<close>: the library checks its
  arguments and throws a \<open>TypeError\<close> for a key or a message that is not a string (of the
  values modelled here).
\<close>

definition createHmacHex :: "env \<Rightarrow> jsval \<Rightarrow> jsval \<Rightarrow> jsval + string" where
  "createHmacHex e key msg =
     (case key of
        JStr k \<Rightarrow>
          (case msg of
             JStr m \<Rightarrow> Inr (hmacSha1Hex e k m)
           | _ \<Rightarrow> Inl (typeError ''The data argument must be of type string''))
      | _ \<Rightarrow> Inl (typeError ''The key argument must be of type string''))"

definition sessionData :: "string \<Rightarrow> jsval" where
  "sessionData password =
     JObj [(''app_id'', JStr APP_ID), (''app_version'', JStr APP_VERSION),
           (''password'', JStr password)]"

text \<open>The callback of the open-session request, \<open>({ session_token, permissions }) => ...\<close>.\<close>

definition sessionOpened :: "settled \<times> node \<Rightarrow> settled \<times> node" where
  "sessionOpened p =
     (case p of
        (Rejected err, st) \<Rightarrow> (Rejected err, st)
      | (Resolved v, st) \<Rightarrow>
          (case destructure v of
             None \<Rightarrow> (Rejected (typeError ''Cannot destructure property session_token''), st)
           | Some w \<Rightarrow>
               (Resolved JUndef,
                (emit ''session.opened'' (logInfo ''Session opened'' st))
                  \<lparr>session := [(''token'', field w ''session_token''),
                               (''permissions'', field w ''permissions'')]\<rparr>)))"

definition refreshSession :: "env \<Rightarrow> node \<Rightarrow> settled \<times> node" where
  "refreshSession e st =
     (case internalApiCall e ''/login'' JUndef [] st of
        (Rejected err, st1) \<Rightarrow> (Rejected err, st1)
      | (Resolved v, st1) \<Rightarrow>
          (case destructure v of
             None \<Rightarrow> (Rejected (typeError ''Cannot destructure property logged_in''), st1)
           | Some w \<Rightarrow>
               (if \<not> truthy (field w ''logged_in'')
                then (case createHmacHex e (objGet (application st1) ''token'') (field w ''challenge'') of
                        Inl err \<Rightarrow> (Rejected err, st1)
                      | Inr password \<Rightarrow>
                          sessionOpened (internalApiCall e ''/login/session'' (sessionData password) [] st1))
                else (Resolved JUndef, st1))))"

definition apiCall :: "env \<Rightarrow> string \<Rightarrow> jsval \<Rightarrow> node \<Rightarrow> settled \<times> node" where
  "apiCall e url data st =
     (case refreshSession e (logInfo ((if truthy data then ''POST'' else ''GET'') @ '' '' @ url) st) of
        (Rejected err, st1) \<Rightarrow> (Rejected err, st1)
      | (Resolved v, st1) \<Rightarrow>
          internalApiCall e url data [(''X-Fbx-App-Auth'', objGet (session st1) ''token'')] st1)"

section \<open>\<open>logout\<close>\<close>

text \<open>
  The methods of \<open>FreeboxServerNode\<close> that take \<open>(url, data)\<close> and return a promise, by
  name; \<open>refreshSession\<close> ignores both arguments and \<open>_internalApiCall\<close> takes its default
  headers. The class has no other member that a call \<open>this.m(url, data).then(...)\<close> could
  use: \<open>init\<close> and \<open>logout\<close> return \<open>undefined\<close>, \<open>statusChanged\<close> is a getter, and neither
  the constructor nor the runtime's node base class adds a property named \<open>call\<close>.
\<close>

definition promiseMethods :: "(string \<times> (env \<Rightarrow> string \<Rightarrow> jsval \<Rightarrow> node \<Rightarrow> settled \<times> node)) list" where
  "promiseMethods =
     [(''refreshSession'', \<lambda>e url data. refreshSession e),
      (''apiCall'', apiCall),
      (''_internalApiCall'', \<lambda>e url data. internalApiCall e url data [])]"

datatype completion = Returned | Threw jsval

text \<open>
  \<open>this.call('/login/logout', {}).then(() => { ...; emit('session.closed') })\<close>: the member
  \<open>call\<close> is looked up on the node; calling \<open>undefined\<close> throws in the caller of \<open>logout\<close>.
  A rejection of the promise has no handler.
\<close>

definition logout :: "env \<Rightarrow> node \<Rightarrow> completion \<times> node" where
  "logout e st =
     (case map_of promiseMethods ''call'' of
        None \<Rightarrow> (Threw (typeError ''this.call is not a function''), st)
      | Some m \<Rightarrow>
          (case m e ''/login/logout'' (JObj []) st of
             (Resolved v, st1) \<Rightarrow> (Returned, emit ''session.closed'' (logInfo ''Session closed'' st1))
           | (Rejected err, st1) \<Rightarrow> (Returned, st1\<lparr>unhandled := unhandled st1 @ [err]\<rparr>)))"

section \<open>\<open>registerApplication\<close>\<close>

definition authorizeData :: jsval where
  "authorizeData =
     JObj [(''app_id'', JStr APP_ID), (''app_name'', JStr APP_NAME),
           (''app_version'', JStr APP_VERSION), (''device_name'', JStr DEVICE_NAME)]"

text \<open>
  A call whose promise is not returned nor awaited (\<open>this.registerApplication();\<close> inside a
  callback): the callback goes on and returns \<open>undefined\<close>; a rejection of the inner promise
  is unhandled. \<open>None\<close> stands for a run that has not come to rest within the given number
  of calls.
\<close>

definition detached :: "settled option \<times> node \<Rightarrow> settled option \<times> node" where
  "detached p =
     (case p of
        (None, st) \<Rightarrow> (None, st)
      | (Some (Resolved v), st) \<Rightarrow> (Some (Resolved JUndef), st)
      | (Some (Rejected err), st) \<Rightarrow>
          (Some (Resolved JUndef), st\<lparr>unhandled := unhandled st @ [err]\<rparr>))"

definition discardAll :: "node \<Rightarrow> node" where
  "discardAll st = st\<lparr>credStore := None, credentials := [], application := [], session := []\<rparr>"

definition storeCredentials :: "node \<Rightarrow> node" where
  "storeCredentials st =
     (let creds = [(''token'', objGet (application st) ''token''),
                   (''trackId'', objGet (application st) ''trackId'')]
      in st\<lparr>credentials := creds, credStore := Some creds\<rparr>)"

text \<open>
  \<open>registerApplication\<close> calls itself for as long as the appliance answers \<open>pending\<close> or
  \<open>timeout\<close>, so the first argument bounds the number of calls: \<open>(None, st)\<close> is a run
  stopped at the state \<open>st\<close> in which the next call of \<open>registerApplication\<close> would start.
\<close>

fun registerApplication :: "nat \<Rightarrow> env \<Rightarrow> node \<Rightarrow> settled option \<times> node" where
  "registerApplication 0 e st = (None, st)"
| "registerApplication (Suc n) e st =
     (if truthy (objGet (application st) ''trackId'')
      then
        (case internalApiCall e (''/login/authorize/'' @ tmpl (objGet (application st) ''trackId'')) JUndef [] st of
           (Rejected err, st1) \<Rightarrow> (Some (Rejected err), st1)
         | (Resolved v, st1) \<Rightarrow>
             (case destructure v of
                None \<Rightarrow> (Some (Rejected (typeError ''Cannot destructure property status'')), st1)
              | Some w \<Rightarrow>
                  (let status = field w ''status'';
                       st2 = st1\<lparr>application := objSet (application st1) ''status'' status\<rparr>
                   in if status = JStr ''pending'' then
                        detached (registerApplication n e
                          (emit ''application.pending''
                            (logInfo ''The app is not accepted. You must register it.'' st2)))
                      else if status = JStr ''granted'' then
                        (Some (Resolved JUndef),
                         storeCredentials
                           (emit ''application.granted'' (logInfo ''Application registered'' st2)))
                      else if status = JStr ''timeout'' then
                        detached (registerApplication n e
                          (discardAll
                            (emit ''application.timeout''
                              (logInfo ''Application not registered in time. Sending another request...'' st2))))
                      else
                        (Some (Resolved JUndef),
                         discardAll
                           (emit ''application.unknown''
                             (logError (''Register application failed. Status is '' @ tmpl status
                                          @ ''. Deleting credentials'') st2))))))
      else
        (case internalApiCall e ''/login/authorize'' authorizeData [] st of
           (Rejected err, st1) \<Rightarrow> (Some (Rejected err), st1)
         | (Resolved v, st1) \<Rightarrow>
             (case destructure v of
                None \<Rightarrow> (Some (Rejected (typeError ''Cannot destructure property app_token'')), st1)
              | Some w \<Rightarrow>
                  registerApplication n e
                    ((logInfo (''Register app token '' @ tmpl (field w ''app_token'')) st1)
                       \<lparr>application :=
                          objSet (objSet (objSet (application st1) ''token'' (field w ''app_token''))
                                    ''trackId'' (field w ''track_id''))
                            ''status'' (JStr [])\<rparr>))))"

section \<open>\<open>init\<close> and the constructor\<close>

text \<open>\<open>s.indexOf(c)\<close> for a single character, and \<open>s.substr(0, len)\<close>.\<close>

fun indexOfChar :: "char \<Rightarrow> string \<Rightarrow> int" where
  "indexOfChar c [] = - 1"
| "indexOfChar c (x # xs) =
     (if x = c then 0 else (let i = indexOfChar c xs in if i < 0 then - 1 else i + 1))"

definition substr0 :: "string \<Rightarrow> int \<Rightarrow> string" where
  "substr0 s len = (if len \<le> 0 then [] else take (nat len) s)"

definition deriveBaseUrl :: "string \<Rightarrow> jsval \<Rightarrow> string \<Rightarrow> string" where
  "deriveBaseUrl freeboxUrl api_base_url api_version =
     freeboxUrl @ tmpl api_base_url @ ''v''
       @ substr0 api_version (indexOfChar (CHR ''.'') api_version)"

text \<open>
  The fulfilment callback of the discovery request up to the assignment of
  \<open>this.freebox\<close>: the value thrown, or the new \<open>freebox\<close> object. \<open>data.api_version.substr\<close>
  is a function only when \<open>api_version\<close> is a string.
\<close>

definition discovered :: "string \<Rightarrow> jsval \<Rightarrow> jsval + obj" where
  "discovered freeboxUrl data =
     (case hasKey ''uid'' data of
        None \<Rightarrow> Inl (typeError ''Cannot use in operator to search for uid'')
      | Some False \<Rightarrow> Inl (JStr ''No uid in response'')
      | Some True \<Rightarrow>
          (case field data ''api_version'' of
             JStr ver \<Rightarrow>
               Inr [(''uid'', field data ''uid''),
                    (''deviceName'', field data ''device_name''),
                    (''deviceType'', field data ''device_type''),
                    (''baseUrl'', JStr (deriveBaseUrl freeboxUrl (field data ''api_base_url'') ver))]
           | _ \<Rightarrow> Inl (typeError ''data.api_version.substr is not a function'')))"

text \<open>The rejection callback of \<open>init\<close>; reading \<open>response.config\<close> throws on a nullish value.\<close>

definition initFailed :: "jsval \<Rightarrow> node \<Rightarrow> node" where
  "initFailed response st =
     (if nullish response
      then st\<lparr>unhandled := unhandled st @ [typeError ''Cannot read properties (reading config)'']\<rparr>
      else emit ''application.error''
             (if truthy (field response ''config'')
              then logErrorInspect
                     (''Freebox '' @ tmpl (field (field response ''config'') ''url'') @ '' error: '')
                     response st
              else logErrorInspect ''Freebox error: '' response st))"

definition freeboxUrlOf :: "obj \<Rightarrow> string" where
  "freeboxUrlOf config = ''http://'' @ tmpl (objGet config ''host'') @ '':'' @ tmpl (objGet config ''port'')"

text \<open>
  \<open>init\<close> returns nothing; the result says whether the flow it starts has come to rest
  within \<open>n\<close> calls of \<open>registerApplication\<close>, and gives the node then.
\<close>

definition init :: "nat \<Rightarrow> env \<Rightarrow> obj \<Rightarrow> node \<Rightarrow> bool \<times> node" where
  "init n e config st =
     (case axios e (JObj [(''url'', JStr (freeboxUrlOf config @ ''/api_version''))])
             (logInfo (''Connecting to freebox at '' @ freeboxUrlOf config) st) of
        (Rejected err, st1) \<Rightarrow> (True, initFailed err st1)
      | (Resolved response, st1) \<Rightarrow>
          (case destructure response of
             None \<Rightarrow> (True, initFailed (typeError ''Cannot destructure property data'') st1)
           | Some rsp \<Rightarrow>
               (case discovered (freeboxUrlOf config) (field rsp ''data'') of
                  Inl err \<Rightarrow> (True, initFailed err st1)
                | Inr fb \<Rightarrow>
                    (if objGet (application st1) ''status'' \<noteq> JStr ''granted''
                     then (case detached (registerApplication n e (st1\<lparr>freebox := fb\<rparr>)) of
                             (None, st2) \<Rightarrow> (False, st2)
                           | (Some r, st2) \<Rightarrow> (True, st2))
                     else (True, st1\<lparr>freebox := fb\<rparr>)))))"

text \<open>\<open>a || b\<close>.\<close>

definition orElse :: "jsval \<Rightarrow> jsval \<Rightarrow> jsval" where
  "orElse a b = (if truthy a then a else b)"

text \<open>
  The constructor. The runtime sets \<open>this.credentials\<close> to the credentials it keeps for
  the node, or to an empty object.
\<close>

definition newNode :: "obj option \<Rightarrow> node" where
  "newNode stored =
     (let creds = (case stored of None \<Rightarrow> [] | Some c \<Rightarrow> c)
      in \<lparr>freebox = [(''uid'', JStr []), (''deviceName'', JStr []), (''deviceType'', JStr []),
                     (''baseUrl'', JStr [])],
          application = [(''token'', orElse (objGet creds ''token'') (JStr [])),
                         (''trackId'', orElse (objGet creds ''trackId'') (JStr [])),
                         (''status'', JStr [])],
          session = [(''token'', JStr []), (''permissions'', JObj [])],
          credentials = creds,
          credStore = stored,
          emitted = [], logged = [], sent = [], unhandled = []\<rparr>)"

definition construct :: "nat \<Rightarrow> env \<Rightarrow> obj \<Rightarrow> obj option \<Rightarrow> bool \<times> node" where
  "construct n e config stored = init n e config (newNode stored)"

section \<open>Notions the properties are stated with\<close>

text \<open>The requests a run has added to the ones made before it.\<close>

definition newRequests :: "node \<Rightarrow> node \<Rightarrow> jsval list" where
  "newRequests st st' = drop (length (sent st)) (sent st')"

text \<open>A request whose \<open>headers\<close> object has the key \<open>X-Fbx-App-Auth\<close>.\<close>

definition hasAuthHeader :: "jsval \<Rightarrow> bool" where
  "hasAuthHeader options = (hasKey ''X-Fbx-App-Auth'' (field options ''headers'') = Some True)"

text \<open>
  From \<open>st\<close> to \<open>st'\<close> the device identity is kept, the earlier requests are kept, and
  every request added carries no \<open>X-Fbx-App-Auth\<close> header.
\<close>

definition unsignedRun :: "node \<Rightarrow> node \<Rightarrow> bool" where
  "unsignedRun st st' =
     (freebox st' = freebox st \<and> take (length (sent st)) (sent st') = sent st
      \<and> (\<forall>r \<in> set (newRequests st st'). \<not> hasAuthHeader r))"

text \<open>
  The major component of a version string in the words of the specification: the
  substring before the first dot.
\<close>

definition specMajorVersion :: "string \<Rightarrow> string" where
  "specMajorVersion api_version = takeWhile (\<lambda>c. c \<noteq> CHR ''.'') api_version"

definition specBaseUrl :: "string \<Rightarrow> string \<Rightarrow> string \<Rightarrow> string \<Rightarrow> string" where
  "specBaseUrl host port api_base_url api_version =
     ''http://'' @ host @ '':'' @ port @ api_base_url @ ''v'' @ specMajorVersion api_version"

text \<open>The authorize-status request for the track id the node holds.\<close>

definition pollRequest :: "node \<Rightarrow> jsval" where
  "pollRequest st =
     requestOptions st (''/login/authorize/'' @ tmpl (objGet (application st) ''trackId'')) JUndef []"

text \<open>The request a call of \<open>registerApplication\<close> starts with.\<close>

definition authorizeRequest :: "node \<Rightarrow> jsval" where
  "authorizeRequest st = requestOptions st ''/login/authorize'' authorizeData []"

definition nextRequest :: "node \<Rightarrow> jsval" where
  "nextRequest st =
     (if truthy (objGet (application st) ''trackId'') then pollRequest st else authorizeRequest st)"

section \<open>Example appliances\<close>

text \<open>
  An axios response whose body is the appliance's envelope around \<open>v\<close>, and the error
  axios rejects with when the request fails: it carries the request's options as
  \<open>config\<close>.
\<close>

definition envelope :: "jsval \<Rightarrow> jsval \<Rightarrow> settled" where
  "envelope v options =
     Resolved (JObj [(''status'', JNum 200),
                     (''data'', JObj [(''success'', JBool True), (''result'', v)])])"

definition networkError :: "jsval \<Rightarrow> jsval" where
  "networkError options =
     JObj [(''name'', JStr ''AxiosError''), (''message'', JStr ''Network Error''),
           (''config'', options)]"

text \<open>An appliance that answers the requests in order as listed, and fails afterwards.\<close>

fun script :: "(jsval \<Rightarrow> settled) list \<Rightarrow> nat \<Rightarrow> jsval \<Rightarrow> settled" where
  "script [] i options = Rejected (networkError options)"
| "script (f # fs) 0 options = f options"
| "script (f # fs) (Suc i) options = script fs i options"

text \<open>A stand-in for the keyed hash in the examples; the theorems hold for every function.\<close>

definition exHmac :: "string \<Rightarrow> string \<Rightarrow> string" where
  "exHmac key msg = ''hmac('' @ key @ '','' @ msg @ '')''"

definition exEnv :: "(jsval \<Rightarrow> settled) list \<Rightarrow> env" where
  "exEnv answers = \<lparr>transport = script answers, hmacSha1Hex = exHmac\<rparr>"

text \<open>A node that has been granted access and holds a session.\<close>

definition exNode :: node where
  "exNode =
     \<lparr>freebox = [(''uid'', JStr ''abc''), (''deviceName'', JStr ''Freebox Server''),
                 (''deviceType'', JStr ''FreeboxServer''),
                 (''baseUrl'', JStr ''http://192.168.1.254:80/api/v8'')],
      application = [(''token'', JStr ''tok''), (''trackId'', JNum 7), (''status'', JStr ''granted'')],
      session = [(''token'', JStr ''s0''), (''permissions'', JObj [(''settings'', JBool True)])],
      credentials = [(''token'', JStr ''tok''), (''trackId'', JNum 7)],
      credStore = Some [(''token'', JStr ''tok''), (''trackId'', JNum 7)],
      emitted = [], logged = [], sent = [], unhandled = []\<rparr>"

definition loggedIn :: "jsval \<Rightarrow> settled" where
  "loggedIn = envelope (JObj [(''logged_in'', JBool True), (''challenge'', JStr ''ch'')])"

definition notLoggedIn :: "jsval \<Rightarrow> settled" where
  "notLoggedIn = envelope (JObj [(''logged_in'', JBool False), (''challenge'', JStr ''ch'')])"

definition opened :: "jsval \<Rightarrow> settled" where
  "opened = envelope (JObj [(''session_token'', JStr ''s1''),
                            (''permissions'', JObj [(''settings'', JBool False)])])"

definition failing :: "jsval \<Rightarrow> settled" where
  "failing options = Rejected (networkError options)"

definition authStatus :: "string \<Rightarrow> jsval \<Rightarrow> settled" where
  "authStatus s = envelope (JObj [(''status'', JStr s)])"

definition authorized :: "jsval \<Rightarrow> settled" where
  "authorized = envelope (JObj [(''app_token'', JStr ''tok2''), (''track_id'', JNum 8)])"

definition exDiscovery :: "jsval \<Rightarrow> settled" where
  "exDiscovery options =
     Resolved (JObj [(''status'', JNum 200),
                     (''data'', JObj [(''uid'', JStr ''abc''), (''api_base_url'', JStr ''/api/''),
                                      (''api_version'', JStr ''8.0'')])])"

definition exConfig :: obj where
  "exConfig = [(''host'', JStr ''192.168.1.254''), (''port'', JNum 80)]"

text \<open>An appliance that hands out the track id \<open>7\<close> (the one \<open>exNode\<close> holds) once more.\<close>

definition authorizedSame :: "jsval \<Rightarrow> settled" where
  "authorizedSame = envelope (JObj [(''app_token'', JStr ''tok2''), (''track_id'', JNum 7)])"

text \<open>A discovery response whose version has no dot.\<close>

definition exDiscoveryDotless :: "jsval \<Rightarrow> settled" where
  "exDiscoveryDotless options =
     Resolved (JObj [(''status'', JNum 200),
                     (''data'', JObj [(''uid'', JStr ''abc''), (''api_base_url'', JStr ''/api/''),
                                      (''api_version'', JStr ''8'')])])"

definition nullBody :: "jsval \<Rightarrow> settled" where
  "nullBody options = Resolved (JObj [(''status'', JNum 200), (''data'', JNull)])"

definition exLoginRequest :: jsval where
  "exLoginRequest =
     JObj [(''url'', JStr ''http://192.168.1.254:80/api/v8/login''), (''data'', JUndef),
           (''method'', JStr ''GET''), (''headers'', JObj [])]"

definition exOpenRequest :: jsval where
  "exOpenRequest =
     JObj [(''url'', JStr ''http://192.168.1.254:80/api/v8/login/session''),
           (''data'', JObj [(''app_id'', JStr ''node-red-contrib-freebox''),
                            (''app_version'', JStr ''0.0.1''),
                            (''password'', JStr ''hmac(tok,ch)'')]),
           (''method'', JStr ''POST''), (''headers'', JObj [])]"

definition exSignedRequest :: jsval where
  "exSignedRequest =
     JObj [(''url'', JStr ''http://192.168.1.254:80/api/v8/connection''), (''data'', JUndef),
           (''method'', JStr ''GET''), (''headers'', JObj [(''X-Fbx-App-Auth'', JStr ''s0'')])]"

definition exPostRequest :: jsval where
  "exPostRequest =
     JObj [(''url'', JStr ''http://192.168.1.254:80/api/v8/wifi/config''),
           (''data'', JObj [(''enabled'', JBool True)]),
           (''method'', JStr ''POST''), (''headers'', JObj [(''X-Fbx-App-Auth'', JStr ''s0'')])]"

definition exPollRequest :: "string \<Rightarrow> jsval" where
  "exPollRequest trackId =
     JObj [(''url'', JStr (''http://192.168.1.254:80/api/v8/login/authorize/'' @ trackId)),
           (''data'', JUndef), (''method'', JStr ''GET''), (''headers'', JObj [])]"

definition exAuthorizeRequest :: jsval where
  "exAuthorizeRequest =
     JObj [(''url'', JStr ''http://192.168.1.254:80/api/v8/login/authorize''),
           (''data'', JObj [(''app_id'', JStr ''node-red-contrib-freebox''),
                            (''app_name'', JStr ''node-red Freebox API''),
                            (''app_version'', JStr ''0.0.1''),
                            (''device_name'', JStr ''Node-red'')]),
           (''method'', JStr ''POST''), (''headers'', JObj [])]"

section \<open>Properties of the values and of \<open>_internalApiCall\<close>\<close>

lemma objGet_objSet: "objGet (objSet ps k v) k' = (if k' = k then v else objGet ps k')"
  by (induction ps) (auto simp: objGet_def)

lemma objSet_twice: "objSet (objSet ps k v) k v' = objSet ps k v'"
  by (induction ps) auto

lemma field_destructure: "field w k = JStr s \<Longrightarrow> destructure w = Some w"
  by (cases w) (simp_all add: destructure_def)

lemma truthy_destructure: "truthy (field w k) \<Longrightarrow> destructure w = Some w"
  by (cases w) (simp_all add: destructure_def)

lemma internalApiCall_unfold:
  "internalApiCall e url data headers st =
     (case unwrapResult (transport e (length (sent st)) (requestOptions st url data headers)) of
        Resolved v \<Rightarrow> (Resolved v, st\<lparr>sent := sent st @ [requestOptions st url data headers]\<rparr>)
      | Rejected err \<Rightarrow> catchHandler err (st\<lparr>sent := sent st @ [requestOptions st url data headers]\<rparr>))"
  by (simp add: internalApiCall_def axios_def)

lemma catchHandler_frame:
  assumes "catchHandler r st = (q, st')"
  shows "freebox st' = freebox st \<and> application st' = application st \<and> session st' = session st
       \<and> credentials st' = credentials st \<and> credStore st' = credStore st
       \<and> emitted st' = emitted st \<and> unhandled st' = unhandled st \<and> sent st' = sent st"
  using assms by (auto simp: catchHandler_def logErrorInspect_def split: if_splits)

lemma internalApiCall_frame:
  assumes "internalApiCall e url data headers st = (q, st')"
  shows "freebox st' = freebox st \<and> application st' = application st \<and> session st' = session st
       \<and> credentials st' = credentials st \<and> credStore st' = credStore st
       \<and> emitted st' = emitted st \<and> unhandled st' = unhandled st
       \<and> sent st' = sent st @ [requestOptions st url data headers]"
proof (cases "unwrapResult (transport e (length (sent st)) (requestOptions st url data headers))")
  case (Resolved v)
  with assms show ?thesis by (auto simp: internalApiCall_unfold)
next
  case (Rejected err)
  with assms have "catchHandler err (st\<lparr>sent := sent st @ [requestOptions st url data headers]\<rparr>) = (q, st')"
    by (simp add: internalApiCall_unfold)
  from catchHandler_frame [OF this] show ?thesis by simp
qed

lemma transport_failure_fulfilled:
  assumes "transport e (length (sent st)) (requestOptions st url data headers) = Rejected r"
    and "\<not> nullish (field r ''config'')"
  shows "internalApiCall e url data headers st =
           (Resolved r,
            st\<lparr>logged := logged st @ [ErrorInspect (tmpl (field (field r ''config'') ''method'') @ '' ''
                                          @ tmpl (field (field r ''config'') ''url'') @ '' error: '') r],
               sent := sent st @ [requestOptions st url data headers]\<rparr>)"
proof -
  have "\<not> nullish r" using assms(2) by (cases r) simp_all
  with assms show ?thesis
    by (cases st) (simp add: internalApiCall_unfold unwrapResult_def catchHandler_def logErrorInspect_def)
qed

section \<open>Requests without the session header\<close>

lemma unsignedRun_iff:
  "unsignedRun st st' \<longleftrightarrow>
     freebox st' = freebox st \<and> (\<exists>pre. sent st' = sent st @ pre \<and> (\<forall>r \<in> set pre. \<not> hasAuthHeader r))"
proof
  assume u: "unsignedRun st st'"
  have "sent st' = take (length (sent st)) (sent st') @ drop (length (sent st)) (sent st')" by simp
  with u have "sent st' = sent st @ newRequests st st'"
    by (simp add: unsignedRun_def newRequests_def)
  with u show "freebox st' = freebox st \<and> (\<exists>pre. sent st' = sent st @ pre \<and> (\<forall>r \<in> set pre. \<not> hasAuthHeader r))"
    unfolding unsignedRun_def by blast
next
  assume "freebox st' = freebox st \<and> (\<exists>pre. sent st' = sent st @ pre \<and> (\<forall>r \<in> set pre. \<not> hasAuthHeader r))"
  then show "unsignedRun st st'"
    by (auto simp: unsignedRun_def newRequests_def)
qed

lemma unsignedRun_refl: "unsignedRun st st"
  by (simp add: unsignedRun_def newRequests_def)

lemma unsignedRun_trans:
  assumes "unsignedRun a b" and "unsignedRun b c"
  shows "unsignedRun a c"
proof -
  from assms(1) obtain p where p: "freebox b = freebox a" "sent b = sent a @ p" "\<forall>r \<in> set p. \<not> hasAuthHeader r"
    unfolding unsignedRun_iff by blast
  from assms(2) obtain q where q: "freebox c = freebox b" "sent c = sent b @ q" "\<forall>r \<in> set q. \<not> hasAuthHeader r"
    unfolding unsignedRun_iff by blast
  have "sent c = sent a @ (p @ q)" using p q by simp
  moreover have "\<forall>r \<in> set (p @ q). \<not> hasAuthHeader r" using p q by auto
  ultimately show ?thesis unfolding unsignedRun_iff using p(1) q(1) by metis
qed

lemma unsignedRun_same:
  assumes "freebox b = freebox a" and "sent b = sent a"
  shows "unsignedRun a b"
  using assms by (simp add: unsignedRun_def newRequests_def)

lemma plain_request: "\<not> hasAuthHeader (requestOptions st url data [])"
  by (simp add: hasAuthHeader_def requestOptions_def objGet_def)

lemma internalApiCall_unsigned:
  assumes "internalApiCall e url data [] st = (q, st')"
  shows "unsignedRun st st'"
  using internalApiCall_frame [OF assms] plain_request [of st url data]
  by (simp add: unsignedRun_def newRequests_def)

lemma sessionOpened_unsigned: "unsignedRun st (snd (sessionOpened (q, st)))"
  by (cases q) (auto simp: sessionOpened_def destructure_def emit_def logInfo_def intro!: unsignedRun_same)

lemma refreshSession_unsigned: "unsignedRun st (snd (refreshSession e st))"
proof -
  obtain q st1 where c: "internalApiCall e ''/login'' JUndef [] st = (q, st1)"
    by (cases "internalApiCall e ''/login'' JUndef [] st")
  note u1 = internalApiCall_unsigned [OF c]
  show ?thesis
  proof (cases q)
    case (Rejected err)
    with c u1 show ?thesis by (simp add: refreshSession_def)
  next
    case (Resolved v)
    show ?thesis
    proof (cases "destructure v")
      case None
      with c u1 Resolved show ?thesis by (simp add: refreshSession_def)
    next
      case (Some w)
      show ?thesis
      proof (cases "truthy (field w ''logged_in'')")
        case True
        with c u1 Resolved Some show ?thesis by (simp add: refreshSession_def)
      next
        case False
        show ?thesis
        proof (cases "createHmacHex e (objGet (application st1) ''token'') (field w ''challenge'')")
          case (Inl err)
          with c u1 Resolved Some False show ?thesis by (simp add: refreshSession_def)
        next
          case (Inr password)
          obtain q2 st2 where c2: "internalApiCall e ''/login/session'' (sessionData password) [] st1 = (q2, st2)"
            by (cases "internalApiCall e ''/login/session'' (sessionData password) [] st1")
          have "unsignedRun st1 (snd (sessionOpened (q2, st2)))"
            using unsignedRun_trans [OF internalApiCall_unsigned [OF c2] sessionOpened_unsigned] .
          with c u1 Resolved Some False Inr c2 show ?thesis
            by (simp add: refreshSession_def unsignedRun_trans)
        qed
      qed
    qed
  qed
qed

lemma detached_unsigned:
  assumes "unsignedRun st (snd p)"
  shows "unsignedRun st (snd (detached p))"
proof (cases p)
  case (Pair r st')
  with assms show ?thesis
    by (auto simp: detached_def unsignedRun_def newRequests_def split: option.splits settled.splits)
qed

lemma detached_sent: "sent (snd (detached p)) = sent (snd p)"
  by (cases p) (auto simp: detached_def split: option.splits settled.splits)

lemma detached_freebox: "freebox (snd (detached p)) = freebox (snd p)"
  by (cases p) (auto simp: detached_def split: option.splits settled.splits)

lemma touch_unsigned:
  "unsignedRun st (emit ev st)" "unsignedRun st (logInfo m st)" "unsignedRun st (logError m st)"
  "unsignedRun st (discardAll st)" "unsignedRun st (storeCredentials st)"
  "unsignedRun st (st\<lparr>application := a\<rparr>)"
  by (simp_all add: unsignedRun_def newRequests_def emit_def logInfo_def logError_def discardAll_def
        storeCredentials_def Let_def)

lemma registerApplication_step:
  "(\<exists>r st'. registerApplication (Suc n) e st = (Some r, st') \<and> unsignedRun st st'
              \<and> sent st' = sent st @ [nextRequest st])
   \<or> (\<exists>st2. unsignedRun st st2 \<and> sent st2 = sent st @ [nextRequest st]
         \<and> (registerApplication (Suc n) e st = detached (registerApplication n e st2)
            \<or> registerApplication (Suc n) e st = registerApplication n e st2))"
proof (cases "truthy (objGet (application st) ''trackId'')")
  case True
  obtain q st1 where c: "internalApiCall e (''/login/authorize/'' @ tmpl (objGet (application st) ''trackId'')) JUndef [] st = (q, st1)"
    by (cases "internalApiCall e (''/login/authorize/'' @ tmpl (objGet (application st) ''trackId'')) JUndef [] st")
  note u1 = internalApiCall_unsigned [OF c]
  have s1: "sent st1 = sent st @ [nextRequest st]"
    using internalApiCall_frame [OF c] True by (simp add: nextRequest_def pollRequest_def)
  show ?thesis
  proof (cases q)
    case (Rejected err)
    with True c u1 s1 show ?thesis by simp
  next
    case (Resolved v)
    show ?thesis
    proof (cases "destructure v")
      case None
      with True c u1 s1 Resolved show ?thesis by simp
    next
      case (Some w)
      let ?st2 = "st1\<lparr>application := objSet (application st1) ''status'' (field w ''status'')\<rparr>"
      have u2: "unsignedRun st ?st2"
        using unsignedRun_trans [OF u1 touch_unsigned(6)] .
      consider (pending) "field w ''status'' = JStr ''pending''"
        | (granted) "field w ''status'' = JStr ''granted''"
        | (timeout) "field w ''status'' = JStr ''timeout''"
        | (other) "field w ''status'' \<noteq> JStr ''pending''" "field w ''status'' \<noteq> JStr ''granted''"
            "field w ''status'' \<noteq> JStr ''timeout''"
        by blast
      then show ?thesis
      proof cases
        case pending
        let ?st3 = "emit ''application.pending'' (logInfo ''The app is not accepted. You must register it.'' ?st2)"
        have "unsignedRun st ?st3"
          by (rule unsignedRun_trans [OF unsignedRun_trans [OF u2 touch_unsigned(2)] touch_unsigned(1)])
        moreover have "registerApplication (Suc n) e st = detached (registerApplication n e ?st3)"
          using True c Resolved Some pending by (simp add: Let_def)
        moreover have "sent ?st3 = sent st @ [nextRequest st]"
          using s1 by (simp add: emit_def logInfo_def logError_def discardAll_def storeCredentials_def Let_def)
        moreover have "sent ?st2 = sent st @ [nextRequest st]"
        using s1 by (simp add: logInfo_def)
      ultimately show ?thesis by blast
      next
        case granted
        let ?st3 = "storeCredentials (emit ''application.granted'' (logInfo ''Application registered'' ?st2))"
        have "unsignedRun st ?st3"
          by (rule unsignedRun_trans [OF unsignedRun_trans [OF unsignedRun_trans [OF u2 touch_unsigned(2)] touch_unsigned(1)] touch_unsigned(5)])
        moreover have "registerApplication (Suc n) e st = (Some (Resolved JUndef), ?st3)"
          using True c Resolved Some granted by (simp add: Let_def)
        moreover have "sent ?st3 = sent st @ [nextRequest st]"
          using s1 by (simp add: emit_def logInfo_def logError_def discardAll_def storeCredentials_def Let_def)
        moreover have "sent ?st2 = sent st @ [nextRequest st]"
        using s1 by (simp add: logInfo_def)
      ultimately show ?thesis by blast
      next
        case timeout
        let ?st3 = "discardAll (emit ''application.timeout''
                      (logInfo ''Application not registered in time. Sending another request...'' ?st2))"
        have "unsignedRun st ?st3"
          by (rule unsignedRun_trans [OF unsignedRun_trans [OF unsignedRun_trans [OF u2 touch_unsigned(2)] touch_unsigned(1)] touch_unsigned(4)])
        moreover have "registerApplication (Suc n) e st = detached (registerApplication n e ?st3)"
          using True c Resolved Some timeout by (simp add: Let_def)
        moreover have "sent ?st3 = sent st @ [nextRequest st]"
          using s1 by (simp add: emit_def logInfo_def logError_def discardAll_def storeCredentials_def Let_def)
        moreover have "sent ?st2 = sent st @ [nextRequest st]"
        using s1 by (simp add: logInfo_def)
      ultimately show ?thesis by blast
      next
        case other
        let ?st3 = "discardAll (emit ''application.unknown''
                      (logError (''Register application failed. Status is '' @ tmpl (field w ''status'')
                                   @ ''. Deleting credentials'') ?st2))"
        have "unsignedRun st ?st3"
          by (rule unsignedRun_trans [OF unsignedRun_trans [OF unsignedRun_trans [OF u2 touch_unsigned(3)] touch_unsigned(1)] touch_unsigned(4)])
        moreover have "registerApplication (Suc n) e st = (Some (Resolved JUndef), ?st3)"
          using True c Resolved Some other by (simp add: Let_def)
        moreover have "sent ?st3 = sent st @ [nextRequest st]"
          using s1 by (simp add: emit_def logInfo_def logError_def discardAll_def storeCredentials_def Let_def)
        moreover have "sent ?st2 = sent st @ [nextRequest st]"
        using s1 by (simp add: logInfo_def)
      ultimately show ?thesis by blast
      qed
    qed
  qed
next
  case False
  obtain q st1 where c: "internalApiCall e ''/login/authorize'' authorizeData [] st = (q, st1)"
    by (cases "internalApiCall e ''/login/authorize'' authorizeData [] st")
  note u1 = internalApiCall_unsigned [OF c]
  have s1: "sent st1 = sent st @ [nextRequest st]"
    using internalApiCall_frame [OF c] False by (simp add: nextRequest_def authorizeRequest_def)
  show ?thesis
  proof (cases q)
    case (Rejected err)
    with False c u1 s1 show ?thesis by simp
  next
    case (Resolved v)
    show ?thesis
    proof (cases "destructure v")
      case None
      with False c u1 s1 Resolved show ?thesis by simp
    next
      case (Some w)
      let ?st2 = "(logInfo (''Register app token '' @ tmpl (field w ''app_token'')) st1)
                       \<lparr>application :=
                          objSet (objSet (objSet (application st1) ''token'' (field w ''app_token''))
                                    ''trackId'' (field w ''track_id''))
                            ''status'' (JStr [])\<rparr>"
      have "unsignedRun st ?st2"
        by (rule unsignedRun_trans [OF unsignedRun_trans [OF u1 touch_unsigned(2)] touch_unsigned(6)])
      moreover have "registerApplication (Suc n) e st = registerApplication n e ?st2"
        using False c Resolved Some by (simp add: logInfo_def)
      moreover have "sent ?st2 = sent st @ [nextRequest st]"
        using s1 by (simp add: logInfo_def)
      ultimately show ?thesis by blast
    qed
  qed
qed

lemma registerApplication_unsigned: "unsignedRun st (snd (registerApplication n e st))"
proof (induction n arbitrary: st)
  case 0
  show ?case by (simp add: unsignedRun_refl)
next
  case (Suc n)
  from registerApplication_step [of n e st] show ?case
  proof (elim disjE exE conjE)
    fix r st'
    assume "registerApplication (Suc n) e st = (Some r, st')" "unsignedRun st st'"
    then show ?thesis by simp
  next
    fix st2
    assume u: "unsignedRun st st2"
      and r: "registerApplication (Suc n) e st = detached (registerApplication n e st2)"
    have "unsignedRun st (snd (registerApplication n e st2))"
      using unsignedRun_trans [OF u Suc.IH] .
    from detached_unsigned [OF this] r show ?thesis by simp
  next
    fix st2
    assume u: "unsignedRun st st2"
      and r: "registerApplication (Suc n) e st = registerApplication n e st2"
    from unsignedRun_trans [OF u Suc.IH] r show ?thesis by simp
  qed
qed

lemma registerApplication_first_request:
  "\<exists>pre. sent (snd (registerApplication (Suc n) e st)) = sent st @ nextRequest st # pre"
proof -
  from registerApplication_step [of n e st] show ?thesis
  proof (elim disjE exE conjE)
    fix r st'
    assume "registerApplication (Suc n) e st = (Some r, st')" "sent st' = sent st @ [nextRequest st]"
    then show ?thesis by simp
  next
    fix st2
    assume s: "sent st2 = sent st @ [nextRequest st]"
      and r: "registerApplication (Suc n) e st = detached (registerApplication n e st2)"
    from registerApplication_unsigned [of st2 n e]
    obtain pre where "sent (snd (registerApplication n e st2)) = sent st2 @ pre"
      unfolding unsignedRun_iff by blast
    with s r show ?thesis by (simp add: detached_sent)
  next
    fix st2
    assume s: "sent st2 = sent st @ [nextRequest st]"
      and r: "registerApplication (Suc n) e st = registerApplication n e st2"
    from registerApplication_unsigned [of st2 n e]
    obtain pre where "sent (snd (registerApplication n e st2)) = sent st2 @ pre"
      unfolding unsignedRun_iff by blast
    with s r show ?thesis by simp
  qed
qed

lemma registerApplication_freebox: "freebox (snd (registerApplication n e st)) = freebox st"
  using registerApplication_unsigned [of st n e] by (simp add: unsignedRun_def)

section \<open>Single calls of \<open>registerApplication\<close>\<close>

lemma pending_step:
  assumes "truthy (objGet (application st) ''trackId'')"
    and "unwrapResult (transport e (length (sent st)) (pollRequest st)) = Resolved v"
    and "field v ''status'' = JStr ''pending''"
  shows "registerApplication (Suc n) e st =
           detached (registerApplication n e
             (st\<lparr>application := objSet (application st) ''status'' (JStr ''pending''),
                 emitted := emitted st @ [''application.pending''],
                 logged := logged st @ [Info ''The app is not accepted. You must register it.''],
                 sent := sent st @ [pollRequest st]\<rparr>))"
  using assms field_destructure [OF assms(3)]
  by (cases st) (simp add: pollRequest_def internalApiCall_unfold Let_def emit_def logInfo_def)

lemma timeout_step:
  assumes "truthy (objGet (application st) ''trackId'')"
    and "unwrapResult (transport e (length (sent st)) (pollRequest st)) = Resolved v"
    and "field v ''status'' = JStr ''timeout''"
  shows "registerApplication (Suc n) e st =
           detached (registerApplication n e
             (st\<lparr>application := [], session := [], credentials := [], credStore := None,
                 emitted := emitted st @ [''application.timeout''],
                 logged := logged st @ [Info ''Application not registered in time. Sending another request...''],
                 sent := sent st @ [pollRequest st]\<rparr>))"
  using assms field_destructure [OF assms(3)]
  by (cases st) (simp add: pollRequest_def internalApiCall_unfold Let_def emit_def logInfo_def discardAll_def)

lemma authorize_step:
  assumes "\<not> truthy (objGet (application st) ''trackId'')"
    and "unwrapResult (transport e (length (sent st)) (authorizeRequest st)) = Resolved w"
    and "\<not> nullish w"
  shows "registerApplication (Suc n) e st =
           registerApplication n e
             (st\<lparr>application :=
                   objSet (objSet (objSet (application st) ''token'' (field w ''app_token''))
                             ''trackId'' (field w ''track_id''))
                     ''status'' (JStr []),
                 logged := logged st @ [Info (''Register app token '' @ tmpl (field w ''app_token''))],
                 sent := sent st @ [authorizeRequest st]\<rparr>)"
  using assms
  by (cases st) (simp add: authorizeRequest_def internalApiCall_unfold logInfo_def destructure_def)

lemma pollRequest_cong:
  "freebox st' = freebox st \<Longrightarrow> objGet (application st') ''trackId'' = objGet (application st) ''trackId''
   \<Longrightarrow> pollRequest st' = pollRequest st"
  by (simp add: pollRequest_def requestOptions_def)

lemma pending_run:
  assumes "truthy (objGet (application st) ''trackId'')"
    and "\<forall>i<k. \<exists>v. unwrapResult (transport e (length (sent st) + i) (pollRequest st)) = Resolved v
                   \<and> field v ''status'' = JStr ''pending''"
  shows "registerApplication k e st =
           (None, st\<lparr>application := (if k = 0 then application st
                                      else objSet (application st) ''status'' (JStr ''pending'')),
                     emitted := emitted st @ replicate k ''application.pending'',
                     logged := logged st @ replicate k (Info ''The app is not accepted. You must register it.''),
                     sent := sent st @ replicate k (pollRequest st)\<rparr>)"
  using assms
proof (induction k arbitrary: st)
  case 0
  show ?case by simp
next
  case (Suc k)
  let ?st1 = "st\<lparr>application := objSet (application st) ''status'' (JStr ''pending''),
                 emitted := emitted st @ [''application.pending''],
                 logged := logged st @ [Info ''The app is not accepted. You must register it.''],
                 sent := sent st @ [pollRequest st]\<rparr>"
  from Suc.prems(2) obtain v where v: "unwrapResult (transport e (length (sent st)) (pollRequest st)) = Resolved v"
      "field v ''status'' = JStr ''pending''"
    by force
  have step: "registerApplication (Suc k) e st = detached (registerApplication k e ?st1)"
    using pending_step [OF Suc.prems(1) v] .
  have p1: "pollRequest ?st1 = pollRequest st"
    by (rule pollRequest_cong) (simp_all add: objGet_objSet)
  have t1: "truthy (objGet (application ?st1) ''trackId'')"
    using Suc.prems(1) by (simp add: objGet_objSet)
  have h1: "\<forall>i<k. \<exists>v. unwrapResult (transport e (length (sent ?st1) + i) (pollRequest ?st1)) = Resolved v
                   \<and> field v ''status'' = JStr ''pending''"
  proof (intro allI impI)
    fix i assume "i < k"
    then have "Suc i < Suc k" by simp
    with Suc.prems(2) have "\<exists>v. unwrapResult (transport e (length (sent st) + Suc i) (pollRequest st)) = Resolved v
                   \<and> field v ''status'' = JStr ''pending''" by blast
    then show "\<exists>v. unwrapResult (transport e (length (sent ?st1) + i) (pollRequest ?st1)) = Resolved v
                   \<and> field v ''status'' = JStr ''pending''"
      by (simp add: p1)
  qed
  show ?case
    unfolding step Suc.IH [OF t1 h1] p1
    by (cases st) (simp add: detached_def objSet_twice replicate_append_same)
qed

lemma one_more_request:
  "sent (snd (registerApplication (Suc 0) e st)) = sent st @ [nextRequest st]"
proof -
  from registerApplication_step [of 0 e st] show ?thesis
    by (auto simp: detached_sent)
qed

text \<open>From here on \<open>registerApplication\<close> is unfolded only through the lemmas above.\<close>

declare registerApplication.simps [simp del]

lemma pending_run_next:
  assumes "truthy (objGet (application st) ''trackId'')"
    and "\<forall>i<k. \<exists>v. unwrapResult (transport e (length (sent st) + i) (pollRequest st)) = Resolved v
                   \<and> field v ''status'' = JStr ''pending''"
  shows "sent (snd (registerApplication (Suc k) e st)) = sent st @ replicate (Suc k) (pollRequest st)"
proof -
  let ?stk = "st\<lparr>application := (if k = 0 then application st
                                      else objSet (application st) ''status'' (JStr ''pending'')),
                     emitted := emitted st @ replicate k ''application.pending'',
                     logged := logged st @ replicate k (Info ''The app is not accepted. You must register it.''),
                     sent := sent st @ replicate k (pollRequest st)\<rparr>"
  have t: "truthy (objGet (application ?stk) ''trackId'')"
    using assms(1) by (simp add: objGet_objSet)
  have p: "pollRequest ?stk = pollRequest st"
    by (rule pollRequest_cong) (simp_all add: objGet_objSet)
  have "\<forall>i<k + 0. \<exists>v. unwrapResult (transport e (length (sent st) + i) (pollRequest st)) = Resolved v
                   \<and> field v ''status'' = JStr ''pending''"
    using assms(2) by simp
  show ?thesis
    using assms
  proof (induction k arbitrary: st)
    case 0
    then show ?case using one_more_request [of e st] by (simp add: nextRequest_def del: registerApplication.simps)
  next
    case (Suc k)
    let ?st1 = "st\<lparr>application := objSet (application st) ''status'' (JStr ''pending''),
                 emitted := emitted st @ [''application.pending''],
                 logged := logged st @ [Info ''The app is not accepted. You must register it.''],
                 sent := sent st @ [pollRequest st]\<rparr>"
    from Suc.prems(2) obtain v where v: "unwrapResult (transport e (length (sent st)) (pollRequest st)) = Resolved v"
        "field v ''status'' = JStr ''pending''"
      by force
    have step: "registerApplication (Suc (Suc k)) e st = detached (registerApplication (Suc k) e ?st1)"
      using pending_step [OF Suc.prems(1) v] .
    have p1: "pollRequest ?st1 = pollRequest st"
      by (rule pollRequest_cong) (simp_all add: objGet_objSet)
    have t1: "truthy (objGet (application ?st1) ''trackId'')"
      using Suc.prems(1) by (simp add: objGet_objSet)
    have h1: "\<forall>i<k. \<exists>v. unwrapResult (transport e (length (sent ?st1) + i) (pollRequest ?st1)) = Resolved v
                   \<and> field v ''status'' = JStr ''pending''"
    proof (intro allI impI)
      fix i assume "i < k"
      then have "Suc i < Suc k" by simp
      with Suc.prems(2) have "\<exists>v. unwrapResult (transport e (length (sent st) + Suc i) (pollRequest st)) = Resolved v
                   \<and> field v ''status'' = JStr ''pending''" by blast
      then show "\<exists>v. unwrapResult (transport e (length (sent ?st1) + i) (pollRequest ?st1)) = Resolved v
                   \<and> field v ''status'' = JStr ''pending''"
        by (simp add: p1)
    qed
    show ?case
      unfolding step detached_sent Suc.IH [OF t1 h1] p1
      by (simp add: replicate_append_same)
  qed
qed

section \<open>Discovery\<close>

lemma indexOfChar_takeWhile:
  "indexOfChar c s = (if c \<in> set s then int (length (takeWhile (\<lambda>x. x \<noteq> c) s)) else - 1)"
  by (induction s) (auto simp: Let_def)

lemma substr0_major:
  assumes "CHR ''.'' \<in> set ver"
  shows "substr0 ver (indexOfChar (CHR ''.'') ver) = specMajorVersion ver"
proof -
  have "take (length (takeWhile (\<lambda>x. x \<noteq> CHR ''.'') ver)) ver = takeWhile (\<lambda>x. x \<noteq> CHR ''.'') ver"
    by (rule takeWhile_eq_take [symmetric])
  with assms show ?thesis
    by (cases "takeWhile (\<lambda>x. x \<noteq> CHR ''.'') ver = []")
       (simp_all add: substr0_def indexOfChar_takeWhile specMajorVersion_def)
qed

lemma initFailed_sent: "sent (initFailed r st) = sent st"
  by (simp add: initFailed_def emit_def logErrorInspect_def)

lemma init_requests:
  "\<exists>pre. sent (snd (init n e config st)) = sent st @ JObj [(''url'', JStr (freeboxUrlOf config @ ''/api_version''))] # pre
       \<and> (\<forall>r \<in> set pre. \<not> hasAuthHeader r)"
proof -
  let ?url = "freeboxUrlOf config"
  let ?st1 = "(logInfo (''Connecting to freebox at '' @ ?url) st)
                \<lparr>sent := sent st @ [JObj [(''url'', JStr (?url @ ''/api_version''))]]\<rparr>"
  let ?q = "transport e (length (sent st)) (JObj [(''url'', JStr (?url @ ''/api_version''))])"
  have ax: "axios e (JObj [(''url'', JStr (?url @ ''/api_version''))])
              (logInfo (''Connecting to freebox at '' @ ?url) st) = (?q, ?st1)"
    by (simp add: axios_def logInfo_def)
  have s1: "sent ?st1 = sent st @ [JObj [(''url'', JStr (?url @ ''/api_version''))]]" by simp
  have reg: "\<exists>pre. sent (snd (detached (registerApplication n e (?st1\<lparr>freebox := fb\<rparr>))))
               = sent ?st1 @ pre \<and> (\<forall>r \<in> set pre. \<not> hasAuthHeader r)" for fb
    using registerApplication_unsigned [of "?st1\<lparr>freebox := fb\<rparr>" n e]
    unfolding unsignedRun_iff detached_sent by simp
  show ?thesis
  proof (cases ?q)
    case (Rejected err)
    then show ?thesis unfolding init_def ax by (simp add: initFailed_sent)
  next
    case (Resolved response)
    show ?thesis
    proof (cases "destructure response")
      case None
      with Resolved show ?thesis unfolding init_def ax by (simp add: initFailed_sent)
    next
      case (Some rsp)
      show ?thesis
      proof (cases "discovered ?url (field rsp ''data'')")
        case (Inl err)
        with Resolved Some show ?thesis unfolding init_def ax by (simp add: initFailed_sent)
      next
        case (Inr fb)
        show ?thesis
        proof (cases "objGet (application ?st1) ''status'' \<noteq> JStr ''granted''")
          case False
          with Resolved Some Inr show ?thesis unfolding init_def ax by simp
        next
          case True
          from reg [of fb] obtain pre where
            p: "sent (snd (detached (registerApplication n e (?st1\<lparr>freebox := fb\<rparr>)))) = sent ?st1 @ pre"
              "\<forall>r \<in> set pre. \<not> hasAuthHeader r" by blast
          obtain q st2 where r: "detached (registerApplication n e (?st1\<lparr>freebox := fb\<rparr>)) = (q, st2)"
            by (cases "detached (registerApplication n e (?st1\<lparr>freebox := fb\<rparr>))")
          with p have "sent st2 = sent ?st1 @ pre" by simp
          with True Resolved Some Inr r p(2) show ?thesis
            unfolding init_def ax by (cases q) simp_all
        qed
      qed
    qed
  qed
qed

lemma discovery_plain: "\<not> hasAuthHeader (JObj [(''url'', u)])"
  by (simp add: hasAuthHeader_def objGet_def)

lemma init_unsigned: "\<forall>r \<in> set (newRequests st (snd (init n e config st))). \<not> hasAuthHeader r"
proof -
  from init_requests [of n e config st] obtain pre where
    "sent (snd (init n e config st)) = sent st @ JObj [(''url'', JStr (freeboxUrlOf config @ ''/api_version''))] # pre"
    "\<forall>r \<in> set pre. \<not> hasAuthHeader r" by blast
  then show ?thesis by (simp add: newRequests_def discovery_plain)
qed

section \<open>Evaluation of the examples\<close>

lemmas ex_defs =
  exEnv_def exNode_def loggedIn_def notLoggedIn_def opened_def failing_def authStatus_def
  authorized_def authorizedSame_def exDiscovery_def exDiscoveryDotless_def exConfig_def nullBody_def
  envelope_def networkError_def
  exLoginRequest_def exOpenRequest_def exSignedRequest_def exPostRequest_def exPollRequest_def
  exAuthorizeRequest_def exHmac_def

lemmas eval_defs =
  requestOptions_def unwrapResult_def destructure_def objGet_def typeError_def pollRequest_def
  authorizeRequest_def authorizeData_def sessionData_def showInt_def showNat.simps digit_def
  APP_ID_def APP_NAME_def APP_VERSION_def DEVICE_NAME_def

lemmas run_defs =
  apiCall_def refreshSession_def internalApiCall_unfold catchHandler_def sessionOpened_def
  createHmacHex_def emit_def logInfo_def logError_def logErrorInspect_def

section \<open>The claims\<close>

text \<open>
  Claim C1, as amended. The claim says that a transport or HTTP failure of a session-related
  or signed request reaches the caller as a rejection. The rejection callback of
  \<open>_internalApiCall\<close> logs the failure and returns it, so for every failure that carries its
  request \<open>config\<close> (as the errors of axios do) the helper's promise is fulfilled with the
  failure object; and when that request is the signed one of \<open>apiCall\<close>, the promise of
  \<open>apiCall\<close> is fulfilled with the failure object as well.
\<close>

theorem failed_call_is_fulfilled:
  assumes "transport e (length (sent st)) (requestOptions st url data headers) = Rejected r"
    and "\<not> nullish (field r ''config'')"
  shows "internalApiCall e url data headers st =
           (Resolved r,
            st\<lparr>logged := logged st @ [ErrorInspect (tmpl (field (field r ''config'') ''method'') @ '' ''
                                          @ tmpl (field (field r ''config'') ''url'') @ '' error: '') r],
               sent := sent st @ [requestOptions st url data headers]\<rparr>)
       \<and> (\<forall>st0 v. refreshSession e (logInfo ((if truthy data then ''POST'' else ''GET'') @ '' '' @ url) st0)
                     = (Resolved v, st)
                   \<and> headers = [(''X-Fbx-App-Auth'', objGet (session st) ''token'')]
            \<longrightarrow> apiCall e url data st0 =
                  (Resolved r,
                   st\<lparr>logged := logged st @ [ErrorInspect (tmpl (field (field r ''config'') ''method'') @ '' ''
                                                 @ tmpl (field (field r ''config'') ''url'') @ '' error: '') r],
                      sent := sent st @ [requestOptions st url data headers]\<rparr>))"
  using transport_failure_fulfilled [OF assms]
  by (auto simp: apiCall_def)

theorem failed_call_is_fulfilled_witness:
  "transport (exEnv [loggedIn, failing]) (Suc 0) exSignedRequest = Rejected (networkError exSignedRequest)
   \<and> apiCall (exEnv [loggedIn, failing]) ''/connection'' JUndef exNode
       = (Resolved (networkError exSignedRequest),
          exNode\<lparr>logged := [Info ''GET /connection'',
                               ErrorInspect ''GET http://192.168.1.254:80/api/v8/connection error: ''
                                 (networkError exSignedRequest)],
                      sent := [exLoginRequest, exSignedRequest]\<rparr>)"
proof -
  let ?e = "exEnv [loggedIn, failing]"
  let ?st = "exNode\<lparr>logged := [Info ''GET /connection''], sent := [exLoginRequest]\<rparr>"
  let ?h = "[(''X-Fbx-App-Auth'', JStr ''s0'')]"
  have req: "requestOptions ?st ''/connection'' JUndef ?h = exSignedRequest"
    by (simp add: ex_defs eval_defs)
  have h1: "transport ?e (length (sent ?st)) (requestOptions ?st ''/connection'' JUndef ?h)
              = Rejected (networkError exSignedRequest)"
    unfolding req by (simp add: ex_defs)
  have h2: "\<not> nullish (field (networkError exSignedRequest) ''config'')"
    by (simp add: ex_defs eval_defs)
  have r: "refreshSession ?e (logInfo ((if truthy JUndef then ''POST'' else ''GET'') @ '' '' @ ''/connection'') exNode)
             = (Resolved JUndef, ?st)"
    by (simp add: ex_defs eval_defs run_defs)
  have s: "?h = [(''X-Fbx-App-Auth'', objGet (session ?st) ''token'')]"
    by (simp add: ex_defs eval_defs)
  from failed_call_is_fulfilled [OF h1 h2] r s
  have "apiCall ?e ''/connection'' JUndef exNode =
          (Resolved (networkError exSignedRequest),
           ?st\<lparr>logged := logged ?st @ [ErrorInspect
                      (tmpl (field (field (networkError exSignedRequest) ''config'') ''method'') @ '' ''
                       @ tmpl (field (field (networkError exSignedRequest) ''config'') ''url'') @ '' error: '')
                      (networkError exSignedRequest)],
                 sent := sent ?st @ [requestOptions ?st ''/connection'' JUndef ?h]\<rparr>)"
    by blast
  then have "apiCall ?e ''/connection'' JUndef exNode =
          (Resolved (networkError exSignedRequest),
           exNode\<lparr>logged := [Info ''GET /connection'',
                                ErrorInspect ''GET http://192.168.1.254:80/api/v8/connection error: ''
                                  (networkError exSignedRequest)],
                       sent := [exLoginRequest, exSignedRequest]\<rparr>)"
    unfolding req by (simp add: networkError_def exSignedRequest_def objGet_def)
  moreover have "transport ?e (Suc 0) exSignedRequest = Rejected (networkError exSignedRequest)"
    by (simp add: ex_defs)
  ultimately show ?thesis by simp
qed

text \<open>
  Claim C1 as stated fails: the appliance reports a session, the signed request
  \<open>GET /connection\<close> fails with a network error, and \<open>apiCall\<close> is fulfilled with that error
  instead of being rejected.
\<close>

theorem failed_call_counterexample:
  "transport (exEnv [loggedIn, failing]) (Suc 0) exSignedRequest = Rejected (networkError exSignedRequest)
   \<and> sent (snd (apiCall (exEnv [loggedIn, failing]) ''/connection'' JUndef exNode))
       = [exLoginRequest, exSignedRequest]
   \<and> fst (apiCall (exEnv [loggedIn, failing]) ''/connection'' JUndef exNode)
       = Resolved (networkError exSignedRequest)
   \<and> \<not> isRejected (fst (apiCall (exEnv [loggedIn, failing]) ''/connection'' JUndef exNode))"
  by (simp add: ex_defs eval_defs run_defs)

text \<open>
  Claim C2 says that a failed open-session call never sets the session fields and never
  emits \<open>session.opened\<close>. Evaluated on a node holding the session token \<open>s0\<close>, with a
  login-status answer \<open>logged_in = false\<close> and an open-session request that fails with a
  network error: \<open>refreshSession\<close> is fulfilled, \<open>session.opened\<close> is emitted, and both session
  fields are overwritten with \<open>undefined\<close>.
\<close>

theorem failed_open_session_commits:
  "transport (exEnv [notLoggedIn, failing]) (Suc 0) exOpenRequest = Rejected (networkError exOpenRequest)
   \<and> sent (snd (refreshSession (exEnv [notLoggedIn, failing]) exNode)) = [exLoginRequest, exOpenRequest]
   \<and> fst (refreshSession (exEnv [notLoggedIn, failing]) exNode) = Resolved JUndef
   \<and> emitted (snd (refreshSession (exEnv [notLoggedIn, failing]) exNode)) = [''session.opened'']
   \<and> session (snd (refreshSession (exEnv [notLoggedIn, failing]) exNode))
       = [(''token'', JUndef), (''permissions'', JUndef)]"
  by (simp add: ex_defs eval_defs run_defs)

text \<open>
  Claim C3 says that \<open>logout\<close> calls the authenticated logout endpoint, emits
  \<open>session.closed\<close> on success, clears the session and never escalates an error. The node
  has no member \<open>call\<close>, so every invocation of \<open>logout\<close> throws a \<open>TypeError\<close> to its caller
  before any request is made, with the node unchanged: no request, no event, the session
  as it was.
\<close>

theorem logout_throws: "logout e st = (Threw (typeError ''this.call is not a function''), st)"
  by (simp add: logout_def promiseMethods_def)

theorem logout_throws_witness:
  "logout (exEnv [loggedIn, opened]) exNode = (Threw (typeError ''this.call is not a function''), exNode)"
  using logout_throws [of "exEnv [loggedIn, opened]" exNode] by simp

text \<open>
  Claim C4: when the login-status call returns a falsy \<open>logged_in\<close> with a challenge string,
  and the node holds an application token (a string), \<open>refreshSession\<close> makes exactly two
  requests, the login-status one and one open-session request, whose \<open>password\<close> is the hex
  HMAC-SHA1 of the challenge keyed with the application token.
\<close>

theorem refreshSession_opens_once:
  assumes "unwrapResult (transport e (length (sent st)) (requestOptions st ''/login'' JUndef [])) = Resolved v"
    and "\<not> truthy (field v ''logged_in'')"
    and "field v ''challenge'' = JStr challenge"
    and "objGet (application st) ''token'' = JStr appToken"
  shows "newRequests st (snd (refreshSession e st)) =
           [requestOptions st ''/login'' JUndef [],
            requestOptions st ''/login/session'' (sessionData (hmacSha1Hex e appToken challenge)) []]
       \<and> field (field (requestOptions st ''/login/session''
                          (sessionData (hmacSha1Hex e appToken challenge)) []) ''data'') ''password''
           = JStr (hmacSha1Hex e appToken challenge)"
proof -
  let ?st1 = "st\<lparr>sent := sent st @ [requestOptions st ''/login'' JUndef []]\<rparr>"
  let ?d = "sessionData (hmacSha1Hex e appToken challenge)"
  have v: "destructure v = Some v"
    using field_destructure [OF assms(3)] .
  have r: "refreshSession e st = sessionOpened (internalApiCall e ''/login/session'' ?d [] ?st1)"
    using assms v by (simp add: refreshSession_def internalApiCall_unfold createHmacHex_def)
  obtain q st2 where c: "internalApiCall e ''/login/session'' ?d [] ?st1 = (q, st2)"
    by (cases "internalApiCall e ''/login/session'' ?d [] ?st1")
  from internalApiCall_frame [OF c]
  have s2: "sent st2 = sent ?st1 @ [requestOptions ?st1 ''/login/session'' ?d []]" by simp
  have "sent (snd (sessionOpened (q, st2))) = sent st2"
    by (cases q) (auto simp: sessionOpened_def destructure_def emit_def logInfo_def)
  with r c s2 have "sent (snd (refreshSession e st)) =
      sent st @ [requestOptions st ''/login'' JUndef [], requestOptions st ''/login/session'' ?d []]"
    by (simp add: requestOptions_def)
  then show ?thesis
    by (simp add: newRequests_def requestOptions_def sessionData_def objGet_def)
qed

theorem refreshSession_opens_once_witness:
  "newRequests exNode (snd (refreshSession (exEnv [notLoggedIn, opened]) exNode))
     = [exLoginRequest, exOpenRequest]
   \<and> field (field exOpenRequest ''data'') ''password'' = JStr (exHmac ''tok'' ''ch'')"
proof -
  let ?v = "JObj [(''logged_in'', JBool False), (''challenge'', JStr ''ch'')]"
  have h1: "unwrapResult (transport (exEnv [notLoggedIn, opened]) (length (sent exNode))
              (requestOptions exNode ''/login'' JUndef [])) = Resolved ?v"
    by (simp add: ex_defs eval_defs)
  have h2: "\<not> truthy (field ?v ''logged_in'')" by (simp add: objGet_def)
  have h3: "field ?v ''challenge'' = JStr ''ch''" by (simp add: objGet_def)
  have h4: "objGet (application exNode) ''token'' = JStr ''tok''" by (simp add: ex_defs objGet_def)
  from refreshSession_opens_once [OF h1 h2 h3 h4] show ?thesis
    by (simp add: ex_defs eval_defs)
qed

text \<open>
  Claim C5, as amended. The claim speaks of every discovery response; the code takes
  \<open>api_version.substr(0, api_version.indexOf('.'))\<close>, which is the part before the first
  dot only when there is a dot. For a discovery response with a \<open>uid\<close>, a string
  \<open>api_base_url\<close> and a string
  \<open>api_version\<close> that contains a dot, the \<open>baseUrl\<close> that \<open>init\<close> stores is
  \<open>http://host:port\<close>, then \<open>api_base_url\<close>, then \<open>v\<close> and the part of \<open>api_version\<close> before
  its first dot; the registration that \<open>init\<close> starts afterwards does not change it. The
  witness is the scenario of the specification: \<open>192.168.1.254:80\<close>, \<open>/api/\<close>, \<open>8.0\<close>.
\<close>

theorem init_derives_baseUrl:
  assumes "transport e (length (sent st)) (JObj [(''url'', JStr (freeboxUrlOf config @ ''/api_version''))])
             = Resolved response"
    and "field response ''data'' = JObj ps"
    and "''uid'' \<in> fst ` set ps"
    and "objGet ps ''api_base_url'' = JStr api_base_url"
    and "objGet ps ''api_version'' = JStr api_version"
    and "CHR ''.'' \<in> set api_version"
  shows "objGet (freebox (snd (init n e config st))) ''baseUrl'' =
           JStr (specBaseUrl (tmpl (objGet config ''host'')) (tmpl (objGet config ''port''))
                   api_base_url api_version)"
proof -
  let ?url = "freeboxUrlOf config"
  let ?fb = "[(''uid'', objGet ps ''uid''),
              (''deviceName'', objGet ps ''device_name''),
              (''deviceType'', objGet ps ''device_type''),
              (''baseUrl'', JStr (deriveBaseUrl ?url (JStr api_base_url) api_version))]"
  let ?st1 = "(logInfo (''Connecting to freebox at '' @ ?url) st)
                \<lparr>sent := sent st @ [JObj [(''url'', JStr (?url @ ''/api_version''))]]\<rparr>"
  have d: "destructure response = Some response"
    using assms(2) by (cases response) (simp_all add: destructure_def)
  have disc: "discovered ?url (JObj ps) = Inr ?fb"
    using assms(3,4,5) by (simp add: discovered_def)
  have ax: "axios e (JObj [(''url'', JStr (?url @ ''/api_version''))])
              (logInfo (''Connecting to freebox at '' @ ?url) st) = (Resolved response, ?st1)"
    using assms(1) by (simp add: axios_def logInfo_def)
  have "freebox (snd (init n e config st)) = ?fb"
  proof (cases "objGet (application ?st1) ''status'' \<noteq> JStr ''granted''")
    case True
    obtain q st2 where r: "detached (registerApplication n e (?st1\<lparr>freebox := ?fb\<rparr>)) = (q, st2)"
      by (cases "detached (registerApplication n e (?st1\<lparr>freebox := ?fb\<rparr>))")
    have "freebox st2 = ?fb"
      using detached_freebox [of "registerApplication n e (?st1\<lparr>freebox := ?fb\<rparr>)"]
        registerApplication_freebox [of n e "?st1\<lparr>freebox := ?fb\<rparr>"] r by simp
    with True r show ?thesis
      unfolding init_def ax by (cases q) (simp_all add: d assms(2) disc)
  next
    case False
    then show ?thesis
      unfolding init_def ax by (simp add: d assms(2) disc)
  qed
  then show ?thesis
    using substr0_major [OF assms(6)]
    by (simp add: objGet_def deriveBaseUrl_def specBaseUrl_def freeboxUrlOf_def)
qed

theorem init_derives_baseUrl_witness:
  "objGet (freebox (snd (init (Suc 0) (exEnv [exDiscovery]) exConfig (newNode None)))) ''baseUrl''
     = JStr ''http://192.168.1.254:80/api/v8''"
proof -
  let ?e = "exEnv [exDiscovery]"
  let ?ps = "[(''uid'', JStr ''abc''), (''api_base_url'', JStr ''/api/''), (''api_version'', JStr ''8.0'')]"
  let ?rsp = "JObj [(''status'', JNum 200), (''data'', JObj ?ps)]"
  have h1: "transport ?e (length (sent (newNode None)))
               (JObj [(''url'', JStr (freeboxUrlOf exConfig @ ''/api_version''))]) = Resolved ?rsp"
    by (simp add: ex_defs newNode_def)
  have h2: "field ?rsp ''data'' = JObj ?ps" by (simp add: objGet_def)
  have h3: "''uid'' \<in> fst ` set ?ps" by simp
  have h4: "objGet ?ps ''api_base_url'' = JStr ''/api/''" by (simp add: objGet_def)
  have h5: "objGet ?ps ''api_version'' = JStr ''8.0''" by (simp add: objGet_def)
  have h6: "CHR ''.'' \<in> set ''8.0''" by simp
  from init_derives_baseUrl [OF h1 h2 h3 h4 h5 h6, of "Suc 0"] show ?thesis
    by (simp add: specBaseUrl_def specMajorVersion_def ex_defs eval_defs)
qed

text \<open>
  Claim C5 as stated fails for a version without a dot: for \<open>api_version = "8"\<close> on
  \<open>192.168.1.254:80\<close> with \<open>api_base_url = "/api/"\<close>, \<open>indexOf\<close> gives \<open>-1\<close>, \<open>substr(0, -1)\<close> is
  empty and \<open>init\<close> stores \<open>http://192.168.1.254:80/api/v\<close>, where the major component
  of the claim gives \<open>http://192.168.1.254:80/api/v8\<close>.
\<close>

theorem dotless_version_counterexample:
  "objGet (freebox (snd (init (Suc 0) (exEnv [exDiscoveryDotless]) exConfig (newNode None)))) ''baseUrl''
     = JStr ''http://192.168.1.254:80/api/v''
   \<and> specBaseUrl ''192.168.1.254'' ''80'' ''/api/'' ''8'' = ''http://192.168.1.254:80/api/v8''"
  by (simp add: init_def axios_def initFailed_def discovered_def deriveBaseUrl_def substr0_def
        freeboxUrlOf_def newNode_def orElse_def detached_def registerApplication.simps
        internalApiCall_unfold catchHandler_def logInfo_def logErrorInspect_def
        specBaseUrl_def specMajorVersion_def ex_defs eval_defs)

text \<open>
  Claim C6, as amended. The claim says that the track id obtained after a timeout differs
  from the discarded one and that the old one is never polled again; the registrar
  compares no track ids, so both are up to the appliance. What holds: when a poll is
  answered \<open>timeout\<close>, the registrar emits
  \<open>application.timeout\<close> and empties the stored credentials, the application state and the
  session state; with one more call the next request is always the authorize request,
  never a poll; and when that request returns an application token and a truthy track
  id (each a string or a safe integer), both are stored and the request after it polls
  the track id that was returned.
\<close>

theorem timeout_restarts_registration:
  assumes "truthy (objGet (application st) ''trackId'')"
    and "unwrapResult (transport e (length (sent st)) (pollRequest st)) = Resolved v"
    and "field v ''status'' = JStr ''timeout''"
  shows "registerApplication (Suc 0) e st =
           (None, st\<lparr>application := [], session := [], credentials := [], credStore := None,
                     emitted := emitted st @ [''application.timeout''],
                     logged := logged st @ [Info ''Application not registered in time. Sending another request...''],
                     sent := sent st @ [pollRequest st]\<rparr>)
       \<and> (\<forall>n. take (length (sent st) + 2) (sent (snd (registerApplication (Suc (Suc n)) e st)))
                = sent st @ [pollRequest st, authorizeRequest st])
       \<and> (\<forall>w. unwrapResult (transport e (Suc (length (sent st))) (authorizeRequest st)) = Resolved w
                \<and> truthy (field w ''track_id'') \<and> scalarId (field w ''track_id'')
                \<and> scalarId (field w ''app_token'')
            \<longrightarrow> application (snd (registerApplication (Suc (Suc 0)) e st))
                  = [(''token'', field w ''app_token''), (''trackId'', field w ''track_id''),
                     (''status'', JStr [])]
              \<and> (\<forall>n. take (length (sent st) + 3) (sent (snd (registerApplication (Suc (Suc (Suc n))) e st)))
                       = sent st @ [pollRequest st, authorizeRequest st,
                                    requestOptions st (''/login/authorize/'' @ tmpl (field w ''track_id'')) JUndef []]))"
proof -
  let ?stA = "st\<lparr>application := [], session := [], credentials := [], credStore := None,
                     emitted := emitted st @ [''application.timeout''],
                     logged := logged st @ [Info ''Application not registered in time. Sending another request...''],
                     sent := sent st @ [pollRequest st]\<rparr>"
  note step = timeout_step [OF assms]
  have nA: "nextRequest ?stA = authorizeRequest st"
    by (simp add: nextRequest_def objGet_def authorizeRequest_def requestOptions_def)
  have a: "registerApplication (Suc 0) e st = (None, ?stA)"
    unfolding step by (simp add: detached_def registerApplication.simps(1))
  have b: "take (length (sent st) + 2) (sent (snd (registerApplication (Suc (Suc n)) e st)))
                = sent st @ [pollRequest st, authorizeRequest st]" for n
  proof -
    from registerApplication_first_request [of n e ?stA] obtain pre
      where "sent (snd (registerApplication (Suc n) e ?stA)) = sent ?stA @ nextRequest ?stA # pre" ..
    then have "sent (snd (registerApplication (Suc (Suc n)) e st)) = sent st @ [pollRequest st, authorizeRequest st] @ pre"
      unfolding step detached_sent nA by simp
    then show ?thesis by simp
  qed
  have c: "application (snd (registerApplication (Suc (Suc 0)) e st))
                  = [(''token'', field w ''app_token''), (''trackId'', field w ''track_id''),
                     (''status'', JStr [])]
              \<and> (\<forall>n. take (length (sent st) + 3) (sent (snd (registerApplication (Suc (Suc (Suc n))) e st)))
                       = sent st @ [pollRequest st, authorizeRequest st,
                                    requestOptions st (''/login/authorize/'' @ tmpl (field w ''track_id'')) JUndef []])"
    if w: "unwrapResult (transport e (Suc (length (sent st))) (authorizeRequest st)) = Resolved w"
      and t: "truthy (field w ''track_id'')" for w
  proof -
    let ?stC = "?stA\<lparr>application := [(''token'', field w ''app_token''), (''trackId'', field w ''track_id''),
                     (''status'', JStr [])],
                 logged := logged ?stA @ [Info (''Register app token '' @ tmpl (field w ''app_token''))],
                 sent := sent ?stA @ [authorizeRequest ?stA]\<rparr>"
    have nn: "\<not> nullish w" using t by (cases w) simp_all
    have fA: "\<not> truthy (objGet (application ?stA) ''trackId'')" by (simp add: objGet_def)
    have wA: "unwrapResult (transport e (length (sent ?stA)) (authorizeRequest ?stA)) = Resolved w"
      using w by (simp add: authorizeRequest_def requestOptions_def)
    have step2: "registerApplication (Suc m) e ?stA = registerApplication m e ?stC" for m
      using authorize_step [OF fA wA nn, of m] by simp
    have nC: "nextRequest ?stC = requestOptions st (''/login/authorize/'' @ tmpl (field w ''track_id'')) JUndef []"
      using t by (simp add: nextRequest_def objGet_def pollRequest_def requestOptions_def)
    have c1: "application (snd (registerApplication (Suc (Suc 0)) e st))
                  = [(''token'', field w ''app_token''), (''trackId'', field w ''track_id''),
                     (''status'', JStr [])]"
      unfolding step step2 by (simp add: detached_def registerApplication.simps(1))
    have c2: "take (length (sent st) + 3) (sent (snd (registerApplication (Suc (Suc (Suc n))) e st)))
                       = sent st @ [pollRequest st, authorizeRequest st,
                                    requestOptions st (''/login/authorize/'' @ tmpl (field w ''track_id'')) JUndef []]" for n
    proof -
      from registerApplication_first_request [of n e ?stC] obtain pre
        where "sent (snd (registerApplication (Suc n) e ?stC)) = sent ?stC @ nextRequest ?stC # pre" ..
      then have "sent (snd (registerApplication (Suc (Suc (Suc n))) e st)) = sent st @ [pollRequest st, authorizeRequest st,
                                    requestOptions st (''/login/authorize/'' @ tmpl (field w ''track_id'')) JUndef []] @ pre"
        unfolding step detached_sent step2 nC by (simp add: authorizeRequest_def requestOptions_def)
      then show ?thesis by simp
    qed
    from c1 c2 show ?thesis by blast
  qed
  from a b c show ?thesis by blast
qed

theorem timeout_restarts_registration_witness:
  "registerApplication (Suc 0) (exEnv [authStatus ''timeout'', authorized, authStatus ''pending'']) exNode =
     (None, exNode\<lparr>application := [], session := [], credentials := [], credStore := None,
                   emitted := [''application.timeout''],
                   logged := [Info ''Application not registered in time. Sending another request...''],
                   sent := [exPollRequest ''7'']\<rparr>)
   \<and> application (snd (registerApplication (Suc (Suc 0))
         (exEnv [authStatus ''timeout'', authorized, authStatus ''pending'']) exNode))
       = [(''token'', JStr ''tok2''), (''trackId'', JNum 8), (''status'', JStr [])]
   \<and> take 3 (sent (snd (registerApplication (Suc (Suc (Suc 0)))
         (exEnv [authStatus ''timeout'', authorized, authStatus ''pending'']) exNode)))
       = [exPollRequest ''7'', exAuthorizeRequest, exPollRequest ''8'']"
proof -
  let ?e = "exEnv [authStatus ''timeout'', authorized, authStatus ''pending'']"
  let ?v = "JObj [(''status'', JStr ''timeout'')]"
  let ?w = "JObj [(''app_token'', JStr ''tok2''), (''track_id'', JNum 8)]"
  have p: "pollRequest exNode = exPollRequest ''7''"
    by (simp add: ex_defs eval_defs)
  have a: "authorizeRequest exNode = exAuthorizeRequest"
    by (simp add: ex_defs eval_defs)
  have p8: "requestOptions exNode (''/login/authorize/'' @ tmpl (field ?w ''track_id'')) JUndef [] = exPollRequest ''8''"
    by (simp add: ex_defs eval_defs)
  have h1: "truthy (objGet (application exNode) ''trackId'')"
    by (simp add: ex_defs objGet_def)
  have h2: "unwrapResult (transport ?e (length (sent exNode)) (pollRequest exNode)) = Resolved ?v"
    unfolding p by (simp add: ex_defs eval_defs)
  have h3: "field ?v ''status'' = JStr ''timeout''" by (simp add: objGet_def)
  have h4: "unwrapResult (transport ?e (Suc (length (sent exNode))) (authorizeRequest exNode)) = Resolved ?w"
    unfolding a by (simp add: ex_defs eval_defs)
  have h5: "truthy (field ?w ''track_id'')" by (simp add: objGet_def)
  have h6: "scalarId (field ?w ''track_id'')" "scalarId (field ?w ''app_token'')"
    by (simp_all add: objGet_def scalarId_def)
  note t = timeout_restarts_registration [OF h1 h2 h3]
  from t have t1: "registerApplication (Suc 0) ?e exNode =
           (None, exNode\<lparr>application := [], session := [], credentials := [], credStore := None,
                     emitted := emitted exNode @ [''application.timeout''],
                     logged := logged exNode @ [Info ''Application not registered in time. Sending another request...''],
                     sent := sent exNode @ [pollRequest exNode]\<rparr>)" by blast
  from t h4 h5 h6 have t2: "application (snd (registerApplication (Suc (Suc 0)) ?e exNode))
                  = [(''token'', field ?w ''app_token''), (''trackId'', field ?w ''track_id''),
                     (''status'', JStr [])]" by blast
  from t h4 h5 h6 have t3: "take (length (sent exNode) + 3) (sent (snd (registerApplication (Suc (Suc (Suc 0))) ?e exNode)))
                       = sent exNode @ [pollRequest exNode, authorizeRequest exNode,
                                    requestOptions exNode (''/login/authorize/'' @ tmpl (field ?w ''track_id'')) JUndef []]"
    by blast
  have s0: "sent exNode = []" "emitted exNode = []" "logged exNode = []" by (simp_all add: exNode_def)
  from t1 t2 t3 show ?thesis
    unfolding p a p8 s0 by (simp add: objGet_def)
qed

text \<open>
  Claim C6 as stated fails when the appliance hands out the discarded track id again:
  the node holds track id \<open>7\<close>, the poll is answered \<open>timeout\<close>, the authorize request
  returns track id \<open>7\<close>, and the registrar stores it and polls \<open>/login/authorize/7\<close> again.
\<close>

theorem same_track_id_counterexample:
  "objGet (application exNode) ''trackId'' = JNum 7
   \<and> unwrapResult (transport (exEnv [authStatus ''timeout'', authorizedSame, authStatus ''pending''])
        0 (exPollRequest ''7'')) = Resolved (JObj [(''status'', JStr ''timeout'')])
   \<and> objGet (application (snd (registerApplication (Suc (Suc 0))
        (exEnv [authStatus ''timeout'', authorizedSame, authStatus ''pending'']) exNode))) ''trackId'' = JNum 7
   \<and> sent (snd (registerApplication (Suc (Suc (Suc 0)))
        (exEnv [authStatus ''timeout'', authorizedSame, authStatus ''pending'']) exNode))
       = [exPollRequest ''7'', exAuthorizeRequest, exPollRequest ''7'']"
  by (simp add: registerApplication.simps internalApiCall_unfold catchHandler_def detached_def
        emit_def logInfo_def logError_def discardAll_def storeCredentials_def Let_def
        ex_defs eval_defs)

text \<open>
  Claim C7: for every number \<open>k\<close> of consecutive \<open>pending\<close> answers, after \<open>k\<close> calls the
  registrar has emitted \<open>application.pending\<close> \<open>k\<close> times, has made \<open>k\<close> polls of the same
  track id, is about to call itself again, and holds the same track id and application
  token (only \<open>status\<close> is set to \<open>pending\<close>); the call after these \<open>k\<close> polls again.
\<close>

theorem pending_keeps_polling:
  assumes "truthy (objGet (application st) ''trackId'')"
    and "\<forall>i<k. \<exists>v. unwrapResult (transport e (length (sent st) + i) (pollRequest st)) = Resolved v
                   \<and> field v ''status'' = JStr ''pending''"
  shows "registerApplication k e st =
           (None, st\<lparr>application := (if k = 0 then application st
                                      else objSet (application st) ''status'' (JStr ''pending'')),
                     emitted := emitted st @ replicate k ''application.pending'',
                     logged := logged st @ replicate k (Info ''The app is not accepted. You must register it.''),
                     sent := sent st @ replicate k (pollRequest st)\<rparr>)
       \<and> objGet (application (snd (registerApplication k e st))) ''trackId'' = objGet (application st) ''trackId''
       \<and> objGet (application (snd (registerApplication k e st))) ''token'' = objGet (application st) ''token''
       \<and> sent (snd (registerApplication (Suc k) e st)) = sent st @ replicate (Suc k) (pollRequest st)"
  using pending_run [OF assms] pending_run_next [OF assms]
  by (simp add: objGet_objSet)

theorem pending_keeps_polling_witness:
  "registerApplication 2 (exEnv [authStatus ''pending'', authStatus ''pending'']) exNode =
     (None, exNode\<lparr>application := [(''token'', JStr ''tok''), (''trackId'', JNum 7), (''status'', JStr ''pending'')],
                   emitted := [''application.pending'', ''application.pending''],
                   logged := [Info ''The app is not accepted. You must register it.'',
                              Info ''The app is not accepted. You must register it.''],
                   sent := [exPollRequest ''7'', exPollRequest ''7'']\<rparr>)
   \<and> sent (snd (registerApplication (Suc 2) (exEnv [authStatus ''pending'', authStatus ''pending'']) exNode))
       = [exPollRequest ''7'', exPollRequest ''7'', exPollRequest ''7'']"
proof -
  let ?e = "exEnv [authStatus ''pending'', authStatus ''pending'']"
  have p: "pollRequest exNode = exPollRequest ''7''"
    by (simp add: ex_defs eval_defs)
  have h1: "truthy (objGet (application exNode) ''trackId'')"
    by (simp add: ex_defs objGet_def)
  have h2: "\<forall>i<2. \<exists>v. unwrapResult (transport ?e (length (sent exNode) + i) (pollRequest exNode)) = Resolved v
                   \<and> field v ''status'' = JStr ''pending''"
    unfolding p by (simp add: ex_defs eval_defs less_Suc_eq numeral_2_eq_2)
  from pending_keeps_polling [OF h1 h2] show ?thesis
    unfolding p by (simp add: exNode_def numeral_2_eq_2)
qed

text \<open>
  Claim C8: when the login-status call returns a truthy \<open>logged_in\<close>, \<open>refreshSession\<close> makes
  that one request only (no open-session call), emits nothing and leaves the session
  token and permissions as they were.
\<close>

theorem refreshSession_logged_in:
  assumes "unwrapResult (transport e (length (sent st)) (requestOptions st ''/login'' JUndef [])) = Resolved v"
    and "truthy (field v ''logged_in'')"
  shows "refreshSession e st =
           (Resolved JUndef, st\<lparr>sent := sent st @ [requestOptions st ''/login'' JUndef []]\<rparr>)
       \<and> newRequests st (snd (refreshSession e st)) = [requestOptions st ''/login'' JUndef []]
       \<and> emitted (snd (refreshSession e st)) = emitted st
       \<and> session (snd (refreshSession e st)) = session st"
proof -
  have "refreshSession e st =
          (Resolved JUndef, st\<lparr>sent := sent st @ [requestOptions st ''/login'' JUndef []]\<rparr>)"
    using assms truthy_destructure [OF assms(2)]
    by (simp add: refreshSession_def internalApiCall_unfold)
  then show ?thesis by (simp add: newRequests_def)
qed

theorem refreshSession_logged_in_witness:
  "refreshSession (exEnv [loggedIn]) exNode = (Resolved JUndef, exNode\<lparr>sent := [exLoginRequest]\<rparr>)
   \<and> emitted (snd (refreshSession (exEnv [loggedIn]) exNode)) = []
   \<and> session (snd (refreshSession (exEnv [loggedIn]) exNode))
       = [(''token'', JStr ''s0''), (''permissions'', JObj [(''settings'', JBool True)])]"
proof -
  let ?v = "JObj [(''logged_in'', JBool True), (''challenge'', JStr ''ch'')]"
  have h1: "unwrapResult (transport (exEnv [loggedIn]) (length (sent exNode))
              (requestOptions exNode ''/login'' JUndef [])) = Resolved ?v"
    by (simp add: ex_defs eval_defs)
  have h2: "truthy (field ?v ''logged_in'')" by (simp add: objGet_def)
  from refreshSession_logged_in [OF h1 h2] show ?thesis
    by (simp add: ex_defs eval_defs)
qed

text \<open>
  Claim C9: the request that \<open>apiCall\<close> makes once the session check is fulfilled has the
  method \<open>POST\<close> for a truthy body (any object) and \<open>GET\<close> for a missing one, and carries
  the session token in \<open>X-Fbx-App-Auth\<close>; the requests of the session check (login-status,
  open-session), of \<open>registerApplication\<close> (authorize, authorize-status) and of \<open>init\<close>
  (discovery) carry no such header.
\<close>

theorem authorized_call_request:
  assumes "refreshSession e (logInfo ((if truthy data then ''POST'' else ''GET'') @ '' '' @ url) st)
             = (Resolved v, st1)"
  shows "sent (snd (apiCall e url data st)) =
           sent st1 @ [JObj [(''url'', JStr (tmpl (objGet (freebox st) ''baseUrl'') @ url)),
                            (''data'', data),
                            (''method'', JStr (if truthy data then ''POST'' else ''GET'')),
                            (''headers'', JObj [(''X-Fbx-App-Auth'', objGet (session st1) ''token'')])]]
       \<and> (\<forall>r \<in> set (newRequests st st1). \<not> hasAuthHeader r)
       \<and> (\<forall>n st'. \<forall>r \<in> set (newRequests st' (snd (registerApplication n e st'))). \<not> hasAuthHeader r)
       \<and> (\<forall>n config st'. \<forall>r \<in> set (newRequests st' (snd (init n e config st'))). \<not> hasAuthHeader r)"
proof -
  let ?st0 = "logInfo ((if truthy data then ''POST'' else ''GET'') @ '' '' @ url) st"
  let ?h = "[(''X-Fbx-App-Auth'', objGet (session st1) ''token'')]"
  have u: "unsignedRun ?st0 st1"
    using refreshSession_unsigned [of ?st0 e] assms by simp
  have s0: "sent ?st0 = sent st" "freebox ?st0 = freebox st" by (simp_all add: logInfo_def)
  obtain q st2 where c: "internalApiCall e url data ?h st1 = (q, st2)"
    by (cases "internalApiCall e url data ?h st1")
  have "apiCall e url data st = (q, st2)"
    using assms c by (simp add: apiCall_def)
  moreover have "sent st2 = sent st1 @ [requestOptions st1 url data ?h]"
    using internalApiCall_frame [OF c] by simp
  moreover have "freebox st1 = freebox st"
    using u s0 by (simp add: unsignedRun_def)
  ultimately have a: "sent (snd (apiCall e url data st)) =
           sent st1 @ [JObj [(''url'', JStr (tmpl (objGet (freebox st) ''baseUrl'') @ url)),
                            (''data'', data),
                            (''method'', JStr (if truthy data then ''POST'' else ''GET'')),
                            (''headers'', JObj [(''X-Fbx-App-Auth'', objGet (session st1) ''token'')])]]"
    by (simp add: requestOptions_def)
  have b: "\<forall>r \<in> set (newRequests st st1). \<not> hasAuthHeader r"
    using u s0 by (simp add: unsignedRun_def newRequests_def)
  have c: "\<forall>r \<in> set (newRequests st' (snd (registerApplication n e st'))). \<not> hasAuthHeader r" for n st'
    using registerApplication_unsigned [of st' n e] by (simp add: unsignedRun_def)
  from a b c init_unsigned show ?thesis by blast
qed

theorem authorized_call_request_witness:
  "sent (snd (apiCall (exEnv [loggedIn, opened]) ''/wifi/config'' (JObj [(''enabled'', JBool True)]) exNode))
     = [exLoginRequest, exPostRequest]
   \<and> \<not> hasAuthHeader exLoginRequest \<and> hasAuthHeader exPostRequest"
proof -
  let ?e = "exEnv [loggedIn, opened]"
  let ?d = "JObj [(''enabled'', JBool True)]"
  let ?st1 = "exNode\<lparr>logged := [Info ''POST /wifi/config''], sent := [exLoginRequest]\<rparr>"
  have r: "refreshSession ?e (logInfo ((if truthy ?d then ''POST'' else ''GET'') @ '' '' @ ''/wifi/config'') exNode)
             = (Resolved JUndef, ?st1)"
    by (simp add: ex_defs eval_defs run_defs)
  from authorized_call_request [OF r]
  have "sent (snd (apiCall ?e ''/wifi/config'' ?d exNode)) =
           sent ?st1 @ [JObj [(''url'', JStr (tmpl (objGet (freebox exNode) ''baseUrl'') @ ''/wifi/config'')),
                            (''data'', ?d),
                            (''method'', JStr (if truthy ?d then ''POST'' else ''GET'')),
                            (''headers'', JObj [(''X-Fbx-App-Auth'', objGet (session ?st1) ''token'')])]]"
    by blast
  then have "sent (snd (apiCall ?e ''/wifi/config'' ?d exNode)) = [exLoginRequest, exPostRequest]"
    by (simp add: ex_defs eval_defs)
  moreover have "\<not> hasAuthHeader exLoginRequest \<and> hasAuthHeader exPostRequest"
    by (simp add: hasAuthHeader_def ex_defs objGet_def)
  ultimately show ?thesis by simp
qed

text \<open>
  Claim C10: when the value that reaches the rejection callback of \<open>_internalApiCall\<close> has no
  \<open>config\<close> property, the callback throws while reading \<open>response.config.method\<close>: nothing
  is logged and the promise is rejected with that \<open>TypeError\<close>. The witness is a response
  whose body is \<open>null\<close>, for which \<open>data.result\<close> throws inside the chain.
\<close>

theorem internalApiCall_handler_fails:
  assumes "unwrapResult (transport e (length (sent st)) (requestOptions st url data headers)) = Rejected r"
    and "field r ''config'' = JUndef"
  shows "internalApiCall e url data headers st =
           (Rejected (typeError (if nullish r then ''Cannot read properties (reading config)''
                                 else ''Cannot read properties (reading method)'')),
            st\<lparr>sent := sent st @ [requestOptions st url data headers]\<rparr>)"
  using assms by (simp add: internalApiCall_unfold catchHandler_def)

theorem internalApiCall_handler_fails_witness:
  "unwrapResult (transport (exEnv [nullBody]) 0 (requestOptions exNode ''/connection'' JUndef []))
     = Rejected (typeError ''Cannot read properties of data (reading result)'')
   \<and> fst (internalApiCall (exEnv [nullBody]) ''/connection'' JUndef [] exNode)
       = Rejected (typeError ''Cannot read properties (reading method)'')"
proof -
  let ?e = "exEnv [nullBody]"
  have h1: "unwrapResult (transport ?e (length (sent exNode)) (requestOptions exNode ''/connection'' JUndef []))
              = Rejected (typeError ''Cannot read properties of data (reading result)'')"
    by (simp add: ex_defs eval_defs)
  have h2: "field (typeError ''Cannot read properties of data (reading result)'') ''config'' = JUndef"
    by (simp add: eval_defs)
  from internalApiCall_handler_fails [OF h1 h2] h1 show ?thesis
    by (simp add: typeError_def exNode_def)
qed

end
